theory Spec2Isabelle
  imports Complex_Main "HOL-Library.Sublist"
begin

section \<open>Data model (models.py, profiles.py, probe.py)\<close>

text \<open>
  The enums of \<^verbatim>\<open>models.py\<close>. Both \<^verbatim>\<open>QualityTarget\<close> and \<^verbatim>\<open>CodecPreference\<close> have a member
  \<^verbatim>\<open>auto\<close>; the two are told apart by a prefix here.
\<close>

datatype JobStatus = queued | processing | completed | failed | cancelled

datatype QualityTarget = quality_auto | uhd_2160p | fhd_1080p | hd_720p | sd_480p

datatype CodecPreference = codec_auto | h264 | h265

datatype py_error =
  KeyError | IndexError | RuntimeError string | ProbeError string | HTTPError string | QueueFull

text \<open>
  \<^verbatim>\<open>QualityProfile\<close> (frozen dataclass). Field names carry the prefix \<open>p\<close> where another
  class of the program has a field of the same name.
\<close>

record QualityProfile =
  pname :: QualityTarget
  pwidth :: int
  pheight :: int
  video_bitrate :: int
  pcodec :: CodecPreference

text \<open>
  \<^verbatim>\<open>PROFILES\<close>: a dict, kept as an association list in insertion order (the order
  \<^verbatim>\<open>PROFILES.values()\<close> iterates in).
\<close>

definition PROFILES :: "(QualityTarget \<times> QualityProfile) list" where
  "PROFILES =
    [(uhd_2160p, \<lparr>pname = uhd_2160p, pwidth = 3840, pheight = 2160,
                  video_bitrate = 8000000, pcodec = h265\<rparr>),
     (fhd_1080p, \<lparr>pname = fhd_1080p, pwidth = 1920, pheight = 1080,
                  video_bitrate = 12000000, pcodec = h264\<rparr>),
     (hd_720p, \<lparr>pname = hd_720p, pwidth = 1280, pheight = 720,
                video_bitrate = 6000000, pcodec = h264\<rparr>),
     (sd_480p, \<lparr>pname = sd_480p, pwidth = 854, pheight = 480,
                video_bitrate = 3000000, pcodec = h264\<rparr>)]"

text \<open>\<^verbatim>\<open>PROFILES[key]\<close>: a missing key raises \<^verbatim>\<open>KeyError\<close>.\<close>

definition PROFILES_getitem :: "QualityTarget \<Rightarrow> py_error + QualityProfile" where
  "PROFILES_getitem k = (case map_of PROFILES k of None \<Rightarrow> Inl KeyError | Some p \<Rightarrow> Inr p)"

text \<open>
  \<^verbatim>\<open>sorted(PROFILES.values(), key=lambda p: p.height, reverse=True)\<close>: a stable sort by
  descending height, which is a stable ascending sort on the negated key.
\<close>

definition sorted_profiles :: "QualityProfile list" where
  "sorted_profiles = sort_key (\<lambda>p. - pheight p) (map snd PROFILES)"

text \<open>
  \<^verbatim>\<open>choose_profile\<close>. The \<^verbatim>\<open>for\<close> loop returns the first profile of the sorted list that
  satisfies the test, which is \<open>find\<close>.
\<close>

definition choose_profile :: "int \<Rightarrow> int \<Rightarrow> QualityTarget \<Rightarrow> py_error + QualityProfile" where
  "choose_profile source_width source_height request =
    (if request \<noteq> quality_auto then PROFILES_getitem request
     else
       (case find (\<lambda>profile. source_height \<ge> pheight profile \<or> source_width \<ge> pwidth profile)
               sorted_profiles of
          Some profile \<Rightarrow> Inr profile
        | None \<Rightarrow> PROFILES_getitem sd_480p))"

section \<open>Job records and the derived view (jobs.py)\<close>

text \<open>
  A \<^verbatim>\<open>datetime\<close> is a count of microseconds (its resolution); the difference of two is a
  \<^verbatim>\<open>timedelta\<close>, and \<^verbatim>\<open>total_seconds()\<close> divides by \<open>10\<^sup>6\<close>. A \<^verbatim>\<open>float\<close> is a real number
  here: rounding, infinities and NaN are not modelled. A \<^verbatim>\<open>Path\<close> is its string.
\<close>

type_synonym datetime = int

definition total_seconds :: "int \<Rightarrow> real" where
  "total_seconds delta = real_of_int delta / 1000000"

text \<open>
  \<^verbatim>\<open>Path.name\<close>: the final component of the path, trailing slashes apart (components \<^verbatim>\<open>.\<close>
  are not modelled).
\<close>

definition path_name :: "string \<Rightarrow> string" where
  "path_name p =
    rev (takeWhile (\<lambda>c. c \<noteq> CHR ''/'') (dropWhile (\<lambda>c. c = CHR ''/'') (rev p)))"

record JobRecord =
  job_id :: string
  status :: JobStatus
  created_at :: datetime
  updated_at :: datetime
  source_path :: string
  source_filename :: string
  output_path :: "string option"
  quality :: QualityTarget
  codec :: CodecPreference
  callback_url :: "string option"
  error :: "string option"
  download_started_at :: "datetime option"
  download_finished_at :: "datetime option"
  transcode_started_at :: "datetime option"
  transcode_finished_at :: "datetime option"
  media_duration_seconds :: "real option"
  transcode_media_seconds :: "real option"

record JobDetail =
  d_job_id :: string
  d_status :: JobStatus
  d_created_at :: datetime
  d_updated_at :: datetime
  d_source_filename :: string
  d_output_filename :: "string option"
  d_output_path :: "string option"
  d_quality :: QualityTarget
  d_codec :: CodecPreference
  d_callback_url :: "string option"
  d_error :: "string option"
  d_media_duration_seconds :: "real option"
  download_seconds :: "real option"
  transcode_seconds :: "real option"
  transcode_progress :: "real option"
  transcode_eta_seconds :: "real option"

text \<open>
  The progress and ETA part of \<^verbatim>\<open>JobRecord.to_detail\<close> (lines 61 to 73), returning the pair
  \<^verbatim>\<open>(progress, eta_seconds)\<close>. Python's truth tests are written out: an optional float is
  true when it is neither \<^verbatim>\<open>None\<close> nor zero, an optional \<^verbatim>\<open>datetime\<close> when it is not \<^verbatim>\<open>None\<close>.
\<close>

definition progress_eta :: "datetime \<Rightarrow> JobRecord \<Rightarrow> real option \<times> real option" where
  "progress_eta now r =
    (case (media_duration_seconds r, transcode_media_seconds r, transcode_started_at r) of
       (Some media_duration, Some tms, Some started) \<Rightarrow>
         if media_duration = 0 then (None, None)
         else
           let processed = min tms media_duration;
               progress = (if media_duration \<noteq> 0 then Some (processed / media_duration) else None)
           in (case progress of
                 None \<Rightarrow> (progress, None)
               | Some p \<Rightarrow>
                   if p \<noteq> 0 \<and> p > 0 \<and> transcode_finished_at r = None then
                     let elapsed = total_seconds (now - started) in
                     if elapsed > 0 then
                       let speed = processed / elapsed;
                           remaining_media = max (media_duration - processed) 0
                       in if speed > 0 then (progress, Some (remaining_media / speed))
                          else (progress, None)
                     else (progress, None)
                   else (progress, None))
     | _ \<Rightarrow> (None, None))"

text \<open>\<^verbatim>\<open>JobRecord.to_detail\<close>; \<open>now\<close> is what \<^verbatim>\<open>datetime.utcnow()\<close> returns.\<close>

definition to_detail :: "datetime \<Rightarrow> JobRecord \<Rightarrow> JobDetail" where
  "to_detail now r =
    (let download_secs =
           (case (download_started_at r, download_finished_at r) of
              (Some s, Some f) \<Rightarrow> Some (total_seconds (f - s))
            | _ \<Rightarrow> None);
         transcode_secs =
           (case transcode_started_at r of
              None \<Rightarrow> None
            | Some s \<Rightarrow>
                let end_time = (case transcode_finished_at r of Some f \<Rightarrow> f | None \<Rightarrow> now)
                in Some (total_seconds (end_time - s)));
         (progress, eta_seconds) = progress_eta now r
     in \<lparr>d_job_id = job_id r,
         d_status = status r,
         d_created_at = created_at r,
         d_updated_at = updated_at r,
         d_source_filename = source_filename r,
         d_output_filename = map_option path_name (output_path r),
         d_output_path = output_path r,
         d_quality = quality r,
         d_codec = codec r,
         d_callback_url = callback_url r,
         d_error = error r,
         d_media_duration_seconds = media_duration_seconds r,
         download_seconds = download_secs,
         transcode_seconds = transcode_secs,
         transcode_progress = progress,
         transcode_eta_seconds = eta_seconds\<rparr>)"

text \<open>
  \<^verbatim>\<open>TranscodeEngine._update_progress\<close>; \<open>now\<close> is what \<^verbatim>\<open>datetime.utcnow()\<close> returns. The
  processed seconds are stored as they come.
\<close>

definition update_progress :: "JobRecord \<Rightarrow> real \<Rightarrow> real \<Rightarrow> datetime \<Rightarrow> JobRecord" where
  "update_progress r processed_seconds media_duration now =
    (let r1 = r\<lparr>transcode_media_seconds := Some processed_seconds\<rparr>;
         r2 = (if media_duration_seconds r1 = None \<and> media_duration > 0
               then r1\<lparr>media_duration_seconds := Some media_duration\<rparr> else r1)
     in r2\<lparr>updated_at := now\<rparr>)"


section \<open>Strings\<close>

text \<open>
  \<^verbatim>\<open>str.lower()\<close> on ASCII letters (a \<open>char\<close> is a byte; the codec and container names
  that the program compares are ASCII), \<^verbatim>\<open>str(n)\<close> for an integer, \<^verbatim>\<open>str.startswith\<close>,
  \<^verbatim>\<open>str.strip()\<close> on ASCII whitespace, and \<^verbatim>\<open>sub in s\<close>, which is \<open>sublist sub s\<close>.
\<close>

definition lower_char :: "char \<Rightarrow> char" where
  "lower_char c =
    (case map_of (zip ''ABCDEFGHIJKLMNOPQRSTUVWXYZ'' ''abcdefghijklmnopqrstuvwxyz'') c of
       Some d \<Rightarrow> d
     | None \<Rightarrow> c)"

definition lower :: "string \<Rightarrow> string" where
  "lower s = map lower_char s"

definition digit_char :: "nat \<Rightarrow> char" where
  "digit_char d = ''0123456789'' ! d"

fun str_nat :: "nat \<Rightarrow> string" where
  "str_nat n = (if n < 10 then [digit_char n] else str_nat (n div 10) @ [digit_char (n mod 10)])"

definition str_int :: "int \<Rightarrow> string" where
  "str_int i = (if i < 0 then CHR ''-'' # str_nat (nat (- i)) else str_nat (nat i))"

definition startswith :: "string \<Rightarrow> string \<Rightarrow> bool" where
  "startswith s pre = (take (length pre) s = pre)"

definition is_space :: "char \<Rightarrow> bool" where
  "is_space c = (c \<in> set [CHR '' '', CHR 0x09, CHR 0x0A, CHR 0x0B, CHR 0x0C, CHR 0x0D,
                          CHR 0x1C, CHR 0x1D, CHR 0x1E, CHR 0x1F])"

definition strip :: "string \<Rightarrow> string" where
  "strip s = rev (dropWhile is_space (rev (dropWhile is_space s)))"

text \<open>
  \<^verbatim>\<open>int(s)\<close> in base ten: surrounding whitespace, an optional sign, then decimal digits,
  where single underscores may stand between digits. \<^verbatim>\<open>None\<close> is the \<^verbatim>\<open>ValueError\<close>.
  For an ASCII string \<^verbatim>\<open>int\<close> skips the six whitespace characters of C only: unlike
  \<^verbatim>\<open>str.strip()\<close> it rejects the separators \<^verbatim>\<open>0x1C\<close> to \<^verbatim>\<open>0x1F\<close>. (Digits outside ASCII are
  not modelled.)
\<close>

definition is_int_space :: "char \<Rightarrow> bool" where
  "is_int_space c = (c \<in> set [CHR '' '', CHR 0x09, CHR 0x0A, CHR 0x0B, CHR 0x0C, CHR 0x0D])"

definition int_strip :: "string \<Rightarrow> string" where
  "int_strip s = rev (dropWhile is_int_space (rev (dropWhile is_int_space s)))"

definition digit_val :: "char \<Rightarrow> nat option" where
  "digit_val c = map_of (zip ''0123456789'' [0, 1, 2, 3, 4, 5, 6, 7, 8, 9]) c"

fun py_digits :: "string \<Rightarrow> nat \<Rightarrow> bool \<Rightarrow> nat option" where
  "py_digits [] acc prev_digit = (if prev_digit then Some acc else None)"
| "py_digits (c # cs) acc prev_digit =
    (if c = CHR ''_'' then (if prev_digit \<and> cs \<noteq> [] then py_digits cs acc False else None)
     else (case digit_val c of
             None \<Rightarrow> None
           | Some d \<Rightarrow> py_digits cs (10 * acc + d) True))"

definition py_int :: "string \<Rightarrow> int option" where
  "py_int s =
    (case int_strip s of
       [] \<Rightarrow> None
     | c # cs \<Rightarrow>
         if c = CHR ''-'' then map_option (\<lambda>n. - int n) (py_digits cs 0 False)
         else if c = CHR ''+'' then map_option int (py_digits cs 0 False)
         else map_option int (py_digits (c # cs) 0 False))"

section \<open>The transcode engine (transcode/engine.py, transcode/probe.py)\<close>

record MediaStreamInfo =
  codec_type :: string
  codec_name :: "string option"
  width :: "int option"
  height :: "int option"
  bit_rate :: "int option"

record MediaInfo =
  container :: "string option"
  format_bit_rate :: "int option"
  duration :: "real option"
  video :: "MediaStreamInfo option"
  audio :: "MediaStreamInfo option"

record JobRequest =
  request_quality :: QualityTarget
  request_codec :: CodecPreference
  request_callback_url :: "string option"

record TranscodeResult =
  result_output_path :: string
  remuxed :: bool
  result_profile :: QualityProfile
  result_codec :: CodecPreference

text \<open>
  The engine object: the settings it reads and the two capability sets it queries once at
  construction.
\<close>

record TranscodeEngine =
  ffmpeg_command :: string
  output_dir :: string
  work_dir :: string
  ffmpeg_decoders :: "string set"
  ffmpeg_encoders :: "string set"

text \<open>
  What the engine meets outside the program during one job: the result of \<^verbatim>\<open>probe_media\<close> on
  a path (the ffprobe subprocess), whether \<^verbatim>\<open>/dev/rga\<close> exists, and what the ffmpeg
  subprocess does for a command line: the lines it writes to its standard output, each
  with the time at which the engine reads it, and its return code. File operations
  (\<^verbatim>\<open>mkdir\<close>, \<^verbatim>\<open>shutil.move\<close>, \<^verbatim>\<open>unlink\<close>) are taken to succeed.
\<close>

record host =
  probe_media :: "string \<Rightarrow> py_error + MediaInfo"
  rga_exists :: bool
  ffmpeg_process :: "string list \<Rightarrow> (datetime \<times> string) list \<times> int"

text \<open>\<^verbatim>\<open>_map_codec_name\<close>\<close>

definition map_codec_name :: "string option \<Rightarrow> CodecPreference option" where
  "map_codec_name c =
    (case c of
       None \<Rightarrow> None
     | Some s \<Rightarrow>
         if s = [] then None
         else
           let v = lower s in
           if v \<in> {''h264'', ''avc1'', ''avc''} then Some h264
           else if v \<in> {''h265'', ''hevc'', ''hvc1''} then Some h265
           else None)"

text \<open>\<^verbatim>\<open>_select_profile\<close>: a width or height that is \<^verbatim>\<open>None\<close> or zero is not true.\<close>

definition select_profile :: "MediaInfo \<Rightarrow> JobRequest \<Rightarrow> py_error + QualityProfile" where
  "select_profile info request =
    (case video info of
       None \<Rightarrow> Inl (RuntimeError ''Unable to determine source resolution'')
     | Some v \<Rightarrow>
         (case (width v, height v) of
            (Some w, Some h) \<Rightarrow>
              if w = 0 \<or> h = 0 then Inl (RuntimeError ''Unable to determine source resolution'')
              else choose_profile w h (request_quality request)
          | _ \<Rightarrow> Inl (RuntimeError ''Unable to determine source resolution'')))"

text \<open>\<^verbatim>\<open>_resolve_codec\<close>\<close>

definition resolve_codec :: "MediaInfo \<Rightarrow> QualityProfile \<Rightarrow> JobRequest \<Rightarrow> CodecPreference" where
  "resolve_codec info profile request =
    (if request_codec request \<noteq> codec_auto then request_codec request
     else
       let source_codec =
             map_codec_name (case video info of None \<Rightarrow> None | Some v \<Rightarrow> codec_name v)
       in if source_codec \<in> {Some h264, Some h265} then the source_codec
          else if pcodec profile \<noteq> codec_auto then pcodec profile
          else h264)"

text \<open>The test of line 152: the container name is there, not empty, and contains \<^verbatim>\<open>mp4\<close>.\<close>

definition is_mp4_container :: "string option \<Rightarrow> bool" where
  "is_mp4_container c =
    (case c of None \<Rightarrow> False | Some s \<Rightarrow> s \<noteq> [] \<and> sublist ''mp4'' (lower s))"

text \<open>\<^verbatim>\<open>_should_remux\<close>\<close>

definition should_remux :: "MediaInfo \<Rightarrow> QualityProfile \<Rightarrow> CodecPreference \<Rightarrow> bool" where
  "should_remux info profile target_codec =
    (case video info of
       None \<Rightarrow> False
     | Some v \<Rightarrow>
         (case (width v, height v) of
            (Some w, Some h) \<Rightarrow>
              if w = 0 \<or> h = 0 then False
              else
                let source_codec = map_codec_name (codec_name v);
                    target =
                      (if target_codec = codec_auto
                       then (case source_codec of Some c \<Rightarrow> c | None \<Rightarrow> h264)
                       else target_codec)
                in if source_codec \<noteq> Some target then False
                   else if \<not> is_mp4_container (container info) then False
                   else if w > pwidth profile \<or> h > pheight profile then False
                   else True
          | _ \<Rightarrow> False))"

text \<open>\<^verbatim>\<open>_rkmpp_decoder_name\<close>, \<^verbatim>\<open>_rkmpp_encoder_name\<close> and \<^verbatim>\<open>_select_rkmpp_codecs\<close>\<close>

definition rkmpp_decoder_name :: "string \<Rightarrow> string option" where
  "rkmpp_decoder_name cname =
    map_of [(''av1'', ''av1_rkmpp''), (''vp9'', ''vp9_rkmpp''), (''vp8'', ''vp8_rkmpp''),
            (''h264'', ''h264_rkmpp''), (''avc1'', ''h264_rkmpp''), (''avc'', ''h264_rkmpp''),
            (''h265'', ''hevc_rkmpp''), (''hevc'', ''hevc_rkmpp'')] (lower cname)"

definition rkmpp_encoder_name :: "CodecPreference \<Rightarrow> string option" where
  "rkmpp_encoder_name target_codec =
    (if target_codec = h265 then Some ''hevc_rkmpp'' else Some ''h264_rkmpp'')"

text \<open>A name that is \<^verbatim>\<open>None\<close> or empty is not true; \<^verbatim>\<open>name or ""\<close> is \<open>or_empty\<close>.\<close>

definition truthy_name :: "string option \<Rightarrow> bool" where
  "truthy_name n = (case n of None \<Rightarrow> False | Some s \<Rightarrow> s \<noteq> [])"

definition or_empty :: "string option \<Rightarrow> string" where
  "or_empty n = (case n of None \<Rightarrow> [] | Some s \<Rightarrow> s)"

definition select_rkmpp_codecs ::
  "TranscodeEngine \<Rightarrow> MediaInfo \<Rightarrow> CodecPreference \<Rightarrow> bool \<times> string \<times> string" where
  "select_rkmpp_codecs eng info target_codec =
    (let decoder_name0 =
           (case video info of
              None \<Rightarrow> None
            | Some v \<Rightarrow>
                (case codec_name v of
                   None \<Rightarrow> None
                 | Some cn \<Rightarrow>
                     if cn = [] then None
                     else
                       let d = rkmpp_decoder_name cn in
                       if truthy_name d \<and> lower (or_empty d) \<notin> ffmpeg_decoders eng then None
                       else d));
         encoder_name0 = rkmpp_encoder_name target_codec;
         encoder_name1 =
           (if truthy_name encoder_name0 \<and> lower (or_empty encoder_name0) \<notin> ffmpeg_encoders eng
            then None else encoder_name0);
         use_hw = truthy_name encoder_name1
     in (use_hw, or_empty decoder_name0, or_empty encoder_name1))"

text \<open>\<^verbatim>\<open>_hevc_rate_control\<close>\<close>

definition hevc_rate_control :: "int \<Rightarrow> string \<times> string \<times> string" where
  "hevc_rate_control w =
    (if w \<ge> 3800 then (''8M'', ''12M'', ''18M'')
     else if w \<ge> 2500 then (''5M'', ''8M'', ''12M'')
     else (''3M'', ''5M'', ''8M''))"

text \<open>
  How ffmpeg reads a rate option: decimal digits, where a final \<^verbatim>\<open>M\<close> multiplies by
  \<open>10\<^sup>6\<close>. It gives the bits per second that the strings of \<^verbatim>\<open>_hevc_rate_control\<close> stand for
  (anything else reads as \<^verbatim>\<open>None\<close>).
\<close>

definition rate_bits :: "string \<Rightarrow> nat option" where
  "rate_bits s =
    (case rev s of
       [] \<Rightarrow> None
     | c # ds \<Rightarrow>
         if c = CHR ''M'' then map_option (\<lambda>n. n * 1000000) (py_digits (rev ds) 0 False)
         else py_digits s 0 False)"

text \<open>
  \<^verbatim>\<open>_update_progress\<close> as the \<^verbatim>\<open>progress_handler\<close> closure of the two transcode paths:
  \<^verbatim>\<open>lambda seconds: self._update_progress(record, seconds, duration)\<close>. The handler also takes
  the time of the call and the record it mutates.
\<close>

type_synonym progress_handler = "real \<Rightarrow> datetime \<Rightarrow> JobRecord \<Rightarrow> JobRecord"

definition progress_closure :: "real \<Rightarrow> progress_handler" where
  "progress_closure media_duration = (\<lambda>seconds now r. update_progress r seconds media_duration now)"

text \<open>\<^verbatim>\<open>record.media_duration_seconds or 0.0\<close>\<close>

definition duration_or_zero :: "JobRecord \<Rightarrow> real" where
  "duration_or_zero r = (case media_duration_seconds r of None \<Rightarrow> 0 | Some d \<Rightarrow> if d = 0 then 0 else d)"

text \<open>
  One line of the progress stream in \<^verbatim>\<open>_run_ffmpeg\<close> (the body of the \<^verbatim>\<open>for line\<close> loop):
  \<^verbatim>\<open>line.strip().split("=", 1)[1]\<close> is what follows the first \<^verbatim>\<open>=\<close>; a value that \<^verbatim>\<open>int\<close>
  rejects is skipped.
\<close>

definition after_equals :: "string \<Rightarrow> string" where
  "after_equals s = drop 1 (dropWhile (\<lambda>c. c \<noteq> CHR ''='') s)"

definition progress_line :: "progress_handler option \<Rightarrow> datetime \<times> string \<Rightarrow> JobRecord \<Rightarrow> JobRecord" where
  "progress_line handler timed_line r =
    (case handler of
       None \<Rightarrow> r
     | Some h \<Rightarrow>
         if startswith (snd timed_line) ''out_time_ms='' then
           (case py_int (after_equals (strip (snd timed_line))) of
              None \<Rightarrow> r
            | Some microseconds \<Rightarrow> h (real_of_int microseconds / 1000000) (fst timed_line) r)
         else r)"

text \<open>
  \<^verbatim>\<open>_run_ffmpeg\<close>: the process is started with the wrapped command, every line of its output
  goes through the loop body, and a return code other than zero raises \<^verbatim>\<open>RuntimeError\<close>.
  The result is the exception or \<^verbatim>\<open>None\<close>, with the record as the handler left it.
\<close>

definition run_ffmpeg ::
  "host \<Rightarrow> string list \<Rightarrow> string \<Rightarrow> progress_handler option \<Rightarrow> JobRecord
    \<Rightarrow> (py_error + unit) \<times> JobRecord" where
  "run_ffmpeg h cmd action handler r =
    (case cmd of
       [] \<Rightarrow> (Inl IndexError, r)
     | c # cs \<Rightarrow>
         let wrapped_cmd = [c, ''-progress'', ''pipe:1'', ''-nostats''] @ cs;
             (stdout, return_code) = ffmpeg_process h wrapped_cmd;
             r' = fold (progress_line handler) stdout r
         in if return_code \<noteq> 0 then (Inl (RuntimeError (''ffmpeg '' @ action @ '' failed'')), r')
            else (Inr (), r'))"

text \<open>\<^verbatim>\<open>_remux\<close>\<close>

definition remux :: "TranscodeEngine \<Rightarrow> host \<Rightarrow> string \<Rightarrow> string \<Rightarrow> JobRecord
    \<Rightarrow> (py_error + unit) \<times> JobRecord" where
  "remux eng h source dest r =
    (let cmd = [ffmpeg_command eng, ''-hide_banner'', ''-loglevel'', ''error'', ''-y'', ''-i'',
                source, ''-c'', ''copy'', ''-movflags'', ''+faststart'', dest]
     in run_ffmpeg h cmd ''remux'' None r)"

text \<open>\<^verbatim>\<open>_transcode_cpu\<close>\<close>

definition transcode_cpu ::
  "TranscodeEngine \<Rightarrow> host \<Rightarrow> JobRecord \<Rightarrow> string \<Rightarrow> string \<Rightarrow> QualityProfile \<Rightarrow> CodecPreference
    \<Rightarrow> (py_error + unit) \<times> JobRecord" where
  "transcode_cpu eng h r source dest profile cdc =
    (let video_codec = (if cdc = h265 then ''libx265'' else ''libx264'');
         bitrate = str_int (video_bitrate profile);
         vf = ''scale=w='' @ str_int (pwidth profile) @ '':h='' @ str_int (pheight profile)
              @ '':force_original_aspect_ratio=decrease''
              @ '',pad=w='' @ str_int (pwidth profile) @ '':h='' @ str_int (pheight profile)
              @ '':x=(ow-iw)/2:y=(oh-ih)/2'';
         cmd = [ffmpeg_command eng, ''-hide_banner'', ''-loglevel'', ''error'', ''-y'', ''-i'',
                source, ''-vf'', vf, ''-c:v'', video_codec, ''-b:v'', bitrate,
                ''-preset'', ''veryfast'', ''-movflags'', ''+faststart'',
                ''-c:a'', ''aac'', ''-b:a'', ''128k'', dest];
         dur = duration_or_zero r
     in run_ffmpeg h cmd ''transcode'' (Some (progress_closure dur)) r)"

text \<open>
  \<^verbatim>\<open>_transcode_rkmpp\<close>. \<open>rkmpp_cmd\<close> is the command built in the body of the loop over the
  filter candidates (lines 254 to 274), from \<^verbatim>\<open>base_cmd\<close>.
\<close>

definition rkmpp_cmd :: "string list \<Rightarrow> string \<Rightarrow> string \<Rightarrow> QualityProfile \<Rightarrow> string \<Rightarrow> string list" where
  "rkmpp_cmd base_cmd filter_expr encoder_name profile dest =
    base_cmd @ [''-vf'', filter_expr] @ [''-c:v'', encoder_name] @ [''-pix_fmt'', ''nv12'']
    @ (if encoder_name = ''hevc_rkmpp'' then
         [''-profile:v'', ''main'', ''-tag:v'', ''hvc1'']
         @ (let (bv, maxrate, bufsize) = hevc_rate_control (pwidth profile)
            in [''-b:v'', bv, ''-maxrate'', maxrate, ''-bufsize'', bufsize])
       else [''-b:v'', str_int (video_bitrate profile)])
    @ [''-g'', ''240'', ''-movflags'', ''+faststart'', ''-c:a'', ''aac'', ''-b:a'', ''128k'', dest]"

text \<open>\<^verbatim>\<open>except RuntimeError\<close> also catches its subclass \<^verbatim>\<open>ProbeError\<close>.\<close>

fun is_RuntimeError :: "py_error \<Rightarrow> bool" where
  "is_RuntimeError (RuntimeError m) = True"
| "is_RuntimeError (ProbeError m) = True"
| "is_RuntimeError e = False"

text \<open>
  The loop over the filter candidates: the first success returns; a \<^verbatim>\<open>RuntimeError\<close> is
  kept as \<^verbatim>\<open>last_error\<close> and the next candidate is tried; after the last one the kept error
  is raised.
\<close>

fun rkmpp_candidates ::
  "host \<Rightarrow> string list \<Rightarrow> string \<Rightarrow> QualityProfile \<Rightarrow> string
    \<Rightarrow> (string \<times> string) list \<Rightarrow> py_error option \<Rightarrow> JobRecord \<Rightarrow> (py_error + unit) \<times> JobRecord" where
  "rkmpp_candidates h base_cmd encoder_name profile dest [] last_error r =
    (case last_error of
       Some e \<Rightarrow> (Inl e, r)
     | None \<Rightarrow> (Inl (RuntimeError ''rk transcode failed''), r))"
| "rkmpp_candidates h base_cmd encoder_name profile dest ((label, filter_expr) # rest) last_error r =
    (let cmd = rkmpp_cmd base_cmd filter_expr encoder_name profile dest;
         dur = duration_or_zero r;
         (res, r') = run_ffmpeg h cmd (''transcode-rkmpp-'' @ label) (Some (progress_closure dur)) r
     in (case res of
           Inr u \<Rightarrow> (Inr (), r')
         | Inl e \<Rightarrow>
             if is_RuntimeError e
             then rkmpp_candidates h base_cmd encoder_name profile dest rest (Some e) r'
             else (Inl e, r')))"

definition transcode_rkmpp ::
  "TranscodeEngine \<Rightarrow> host \<Rightarrow> JobRecord \<Rightarrow> string \<Rightarrow> string \<Rightarrow> QualityProfile \<Rightarrow> string \<Rightarrow> string
    \<Rightarrow> (py_error + unit) \<times> JobRecord" where
  "transcode_rkmpp eng h r source dest profile decoder_name encoder_name =
    (let filter_candidates =
           (if rga_exists h
            then [(''rkrga'', ''rkrga=fmt=nv12,pad=ceil(iw/16)*16:ceil(ih/16)*16'')] else [])
           @ [(''format'', ''format=nv12,pad=ceil(iw/16)*16:ceil(ih/16)*16'')];
         decoder_args =
           (if decoder_name \<noteq> [] then [''-hwaccel'', ''rkmpp'', ''-c:v'', decoder_name] else []);
         base_cmd = [ffmpeg_command eng, ''-hide_banner'', ''-loglevel'', ''error'', ''-y'']
                    @ decoder_args @ [''-i'', source]
     in rkmpp_candidates h base_cmd encoder_name profile dest filter_candidates None r)"

text \<open>
  The choice of lines 73 to 93 of \<^verbatim>\<open>_process_sync\<close>: remux, or transcode with the hardware
  or the software encoder. It returns \<^verbatim>\<open>remuxed\<close>, the exception if one is raised, and the
  record.
\<close>

definition remux_or_transcode ::
  "TranscodeEngine \<Rightarrow> host \<Rightarrow> MediaInfo \<Rightarrow> QualityProfile \<Rightarrow> CodecPreference \<Rightarrow> string \<Rightarrow> string
    \<Rightarrow> JobRecord \<Rightarrow> bool \<times> (py_error + unit) \<times> JobRecord" where
  "remux_or_transcode eng h info profile target_codec source work_output r1 =
    (if should_remux info profile target_codec
     then (True, remux eng h source work_output r1)
     else
       let (use_hw, decoder, encoder) = select_rkmpp_codecs eng info target_codec
       in (False,
           if use_hw
           then transcode_rkmpp eng h r1 source work_output profile decoder encoder
           else transcode_cpu eng h r1 source work_output profile target_codec))"

text \<open>
  \<^verbatim>\<open>_process_sync\<close>: the exception or the \<^verbatim>\<open>TranscodeResult\<close>, with the record as the call
  left it (the writes made before an exception stay).
\<close>

definition process_sync ::
  "TranscodeEngine \<Rightarrow> host \<Rightarrow> JobRecord \<Rightarrow> JobRequest \<Rightarrow> (py_error + TranscodeResult) \<times> JobRecord" where
  "process_sync eng h r request =
    (case probe_media h (source_path r) of
       Inl e \<Rightarrow> (Inl e, r)
     | Inr info \<Rightarrow>
         (case select_profile info request of
            Inl e \<Rightarrow> (Inl e, r)
          | Inr profile \<Rightarrow>
              let target_codec = resolve_codec info profile request;
                  out_path = output_dir eng @ ''/'' @ job_id r @ ''.mp4'';
                  work_output = work_dir eng @ ''/'' @ job_id r @ ''.mp4'';
                  r1 = r\<lparr>media_duration_seconds := duration info\<rparr>;
                  (is_remux, res, r2) =
                    remux_or_transcode eng h info profile target_codec (source_path r)
                      work_output r1
              in (case res of
                    Inl e \<Rightarrow> (Inl e, r2)
                  | Inr u \<Rightarrow>
                      let r3 = (if media_duration_seconds r2 \<noteq> None
                                then r2\<lparr>transcode_media_seconds := media_duration_seconds r2\<rparr>
                                else r2)
                      in (Inr \<lparr>result_output_path = out_path, remuxed = is_remux,
                                result_profile = profile, result_codec = target_codec\<rparr>, r3))))"

text \<open>The three rates of a triple in bits per second, when all three read as rates.\<close>

definition rate_triple :: "string \<times> string \<times> string \<Rightarrow> (nat \<times> nat \<times> nat) option" where
  "rate_triple t =
    (case t of (b, m, s) \<Rightarrow>
      (case (rate_bits b, rate_bits m, rate_bits s) of
         (Some x, Some y, Some z) \<Rightarrow> Some (x, y, z)
       | _ \<Rightarrow> None))"

section \<open>The callback dispatcher (utils/callbacks.py)\<close>

record CallbackPayload =
  payload_job_id :: string
  payload_status :: JobStatus
  payload_output_path :: "string option"
  payload_message :: "string option"

record CallbackDispatcher =
  callback_timeout :: int
  max_attempts :: int

text \<open>
  What \<^verbatim>\<open>dispatch\<close> does, in order: an HTTP POST, a sleep of so many seconds
  (\<^verbatim>\<open>asyncio.sleep\<close>), and the two final log lines.
\<close>

datatype callback_event =
  Post string CallbackPayload | Sleep int | Delivered | Exhausted

text \<open>
  The body of the \<^verbatim>\<open>for attempt in range(1, self.max_attempts + 1)\<close> loop of \<^verbatim>\<open>dispatch\<close>.
  \<open>post attempt\<close> is what the POST of that attempt and \<^verbatim>\<open>raise_for_status\<close> do: an
  exception (network error, status that is not 2xx) or nothing. \<^verbatim>\<open>except Exception\<close> catches
  every such exception, so the loop itself raises nothing.
\<close>

fun dispatch_attempts ::
  "(int \<Rightarrow> py_error + unit) \<Rightarrow> string \<Rightarrow> CallbackPayload \<Rightarrow> int list
    \<Rightarrow> (py_error + unit) \<times> callback_event list" where
  "dispatch_attempts post url payload [] = (Inr (), [Exhausted])"
| "dispatch_attempts post url payload (attempt # rest) =
    (case post attempt of
       Inr ok \<Rightarrow> (Inr (), [Post url payload, Delivered])
     | Inl exc \<Rightarrow>
         let (res, events) = dispatch_attempts post url payload rest
         in (res, Post url payload # Sleep (min (2 ^ nat attempt) 30) # events))"

definition dispatch ::
  "CallbackDispatcher \<Rightarrow> (int \<Rightarrow> py_error + unit) \<Rightarrow> string \<Rightarrow> CallbackPayload
    \<Rightarrow> (py_error + unit) \<times> callback_event list" where
  "dispatch cb post url payload = dispatch_attempts post url payload [1 .. max_attempts cb]"

section \<open>The job manager (jobs.py)\<close>

text \<open>
  A \<^verbatim>\<open>WorkItem\<close> and the \<^verbatim>\<open>records\<close> dict hold the same \<^verbatim>\<open>JobRecord\<close> object, and the worker
  and \<^verbatim>\<open>cancel_job\<close> mutate it through either. So the record objects live in a store,
  \<open>objects\<close>, and a work item and the dict hold a reference. \<open>next_ref\<close> is the reference
  of the next object to be created.

  \<open>queue\<close> is the content of the \<^verbatim>\<open>asyncio.Queue\<close>, \<open>putters\<close> the work items of the
  \<^verbatim>\<open>submit_job\<close> calls that wait inside \<^verbatim>\<open>queue.put\<close> for a free slot, \<open>in_progress\<close> the
  work item that the worker has handed to \<^verbatim>\<open>transcoder.process\<close>, and \<open>dispatched\<close> the
  calls made to \<^verbatim>\<open>callbacks.dispatch\<close> so far, in order.
\<close>

record JobResponse =
  response_job_id :: string
  response_status :: JobStatus
  response_message :: "string option"

record WorkItem =
  item_record :: nat
  item_request :: JobRequest

record JobManager =
  input_dir :: string
  max_queue_size :: int
  job_retention_minutes :: int
  queue :: "WorkItem list"
  putters :: "WorkItem list"
  records :: "string \<Rightarrow> nat option"
  objects :: "nat \<Rightarrow> JobRecord option"
  next_ref :: nat
  in_progress :: "WorkItem option"
  dispatched :: "(string \<times> CallbackPayload) list"

text \<open>\<^verbatim>\<open>JobManager.__init__\<close>\<close>

definition new_manager :: "string \<Rightarrow> int \<Rightarrow> int \<Rightarrow> JobManager" where
  "new_manager idir maxsize retention =
    \<lparr>input_dir = idir, max_queue_size = maxsize, job_retention_minutes = retention,
      queue = [], putters = [], records = (\<lambda>k. None), objects = (\<lambda>a. None), next_ref = 0,
      in_progress = None, dispatched = []\<rparr>"

text \<open>
  How a call of a coroutine of the manager ends: it returns, it raises, or it is
  suspended at an \<^verbatim>\<open>await\<close> that cannot go on yet.
\<close>

datatype 'a outcome = Returned 'a | Raised py_error | Suspended

text \<open>\<^verbatim>\<open>asyncio.Queue.full()\<close>: a queue with \<^verbatim>\<open>maxsize <= 0\<close> is never full.\<close>

definition queue_full :: "JobManager \<Rightarrow> bool" where
  "queue_full m = (max_queue_size m > 0 \<and> int (length (queue m)) \<ge> max_queue_size m)"

text \<open>
  \<^verbatim>\<open>submit_job\<close>, up to its return or to the point where \<^verbatim>\<open>await self.queue.put(...)\<close>
  suspends it. \<open>jid\<close> is the fresh \<^verbatim>\<open>uuid4\<close>, the three times are what \<^verbatim>\<open>utcnow()\<close> returns at
  lines 133, 138 and 140, and \<open>upload_filename\<close> is \<^verbatim>\<open>upload.filename\<close>. Writing the upload
  to disk is taken to succeed. The record is stored in \<^verbatim>\<open>self.records\<close> before the put;
  \<^verbatim>\<open>asyncio.Queue.put\<close> waits while the queue is full and raises nothing.
\<close>

definition submit_job ::
  "JobManager \<Rightarrow> string \<Rightarrow> datetime \<Rightarrow> datetime \<Rightarrow> datetime \<Rightarrow> string option \<Rightarrow> JobRequest
    \<Rightarrow> JobResponse outcome \<times> JobManager" where
  "submit_job m jid timestamp download_started download_finished upload_filename request =
    (let original_name =
           path_name (case upload_filename of
                        None \<Rightarrow> ''upload''
                      | Some f \<Rightarrow> if f = [] then ''upload'' else f);
         dest_path = input_dir m @ ''/'' @ jid @ ''_'' @ original_name;
         new_record =
           \<lparr>job_id = jid, status = queued, created_at = timestamp, updated_at = timestamp,
             source_path = dest_path, source_filename = original_name, output_path = None,
             quality = request_quality request, codec = request_codec request,
             callback_url =
               (case request_callback_url request of
                  None \<Rightarrow> None
                | Some u \<Rightarrow> if u = [] then None else Some u),
             error = None,
             download_started_at = Some download_started,
             download_finished_at = Some download_finished,
             transcode_started_at = None, transcode_finished_at = None,
             media_duration_seconds = None, transcode_media_seconds = None\<rparr>;
         ref = next_ref m;
         m1 = m\<lparr>objects := (objects m)(ref := Some new_record), next_ref := Suc ref,
                 records := (records m)(jid := Some ref)\<rparr>;
         item = \<lparr>item_record = ref, item_request = request\<rparr>
     in if queue_full m1 then (Suspended, m1\<lparr>putters := putters m1 @ [item]\<rparr>)
        else (Returned \<lparr>response_job_id = jid, response_status = queued,
                        response_message = Some ''Job accepted''\<rparr>,
              m1\<lparr>queue := queue m1 @ [item]\<rparr>))"

text \<open>
  A suspended \<^verbatim>\<open>queue.put\<close> goes on when the queue has a free slot: the first waiting work
  item enters the queue (and that \<^verbatim>\<open>submit_job\<close> call then returns its response).
\<close>

definition resume_put :: "JobManager \<Rightarrow> JobManager" where
  "resume_put m =
    (case putters m of
       [] \<Rightarrow> m
     | item # rest \<Rightarrow>
         if queue_full m then m else m\<lparr>putters := rest, queue := queue m @ [item]\<rparr>)"

text \<open>\<^verbatim>\<open>cancel_job\<close>; \<open>now\<close> is what \<^verbatim>\<open>utcnow()\<close> returns. It makes no call to the dispatcher.\<close>

definition cancel_job :: "datetime \<Rightarrow> JobManager \<Rightarrow> string \<Rightarrow> bool \<times> JobManager" where
  "cancel_job now m jid =
    (case records m jid of
       None \<Rightarrow> (False, m)
     | Some ref \<Rightarrow>
         (case objects m ref of
            None \<Rightarrow> (False, m)
          | Some r \<Rightarrow>
              if status r \<in> {completed, failed, cancelled} then (False, m)
              else (True, m\<lparr>objects := (objects m)(ref := Some (r\<lparr>status := cancelled,
                                                                  updated_at := now\<rparr>))\<rparr>)))"

text \<open>
  \<^verbatim>\<open>purge_expired_jobs\<close>: the entries whose record was last updated before the cutoff leave
  the dict (their files are deleted, which is not modelled). The objects stay for whoever
  still holds a reference.
\<close>

definition purge_expired_jobs :: "datetime \<Rightarrow> JobManager \<Rightarrow> JobManager" where
  "purge_expired_jobs now m =
    (let cutoff = now - job_retention_minutes m * 60 * 1000000
     in m\<lparr>records :=
            (\<lambda>jid. case records m jid of
                     None \<Rightarrow> None
                   | Some ref \<Rightarrow>
                       (case objects m ref of
                          None \<Rightarrow> Some ref
                        | Some r \<Rightarrow> if updated_at r < cutoff then None else Some ref))\<rparr>)"

text \<open>\<^verbatim>\<open>_fire_callback\<close>: the calls to \<^verbatim>\<open>callbacks.dispatch\<close> after it, given those before.\<close>

definition fire_callback ::
  "JobRecord \<Rightarrow> string option \<Rightarrow> (string \<times> CallbackPayload) list \<Rightarrow> (string \<times> CallbackPayload) list" where
  "fire_callback r message calls =
    (case callback_url r of
       None \<Rightarrow> calls
     | Some u \<Rightarrow>
         if u = [] then calls
         else calls @ [(u, \<lparr>payload_job_id = job_id r, payload_status = status r,
                             payload_output_path = output_path r,
                             payload_message = message\<rparr>)])"

text \<open>\<^verbatim>\<open>str(exc)\<close>\<close>

fun str_error :: "py_error \<Rightarrow> string" where
  "str_error (RuntimeError msg) = msg"
| "str_error (ProbeError msg) = msg"
| "str_error (HTTPError msg) = msg"
| "str_error KeyError = ''KeyError''"
| "str_error IndexError = ''list index out of range''"
| "str_error QueueFull = []"

text \<open>
  The first part of one round of the \<^verbatim>\<open>_worker\<close> loop, lines 210 to 226: it takes the next
  work item from the queue; a cancelled job is skipped; otherwise the record is marked as
  processing and the item is handed to \<^verbatim>\<open>transcoder.process\<close>. With an empty queue the
  worker waits in \<^verbatim>\<open>queue.get()\<close>, and while a job is in progress it is not at this point of
  the loop. (A reference always denotes an object.)
\<close>

definition worker_get :: "datetime \<Rightarrow> datetime \<Rightarrow> JobManager \<Rightarrow> JobManager" where
  "worker_get t_updated t_started m =
    (case in_progress m of
       Some busy \<Rightarrow> m
     | None \<Rightarrow>
         (case queue m of
            [] \<Rightarrow> m
          | item # rest \<Rightarrow>
              let m1 = m\<lparr>queue := rest\<rparr> in
              (case objects m1 (item_record item) of
                 None \<Rightarrow> m1
               | Some r \<Rightarrow>
                   if status r = cancelled then m1
                   else m1\<lparr>objects := (objects m1)(item_record item :=
                                        Some (r\<lparr>status := processing, updated_at := t_updated,
                                                 transcode_started_at := Some t_started\<rparr>)),
                           in_progress := Some item\<rparr>)))"

text \<open>
  The second part of the round, lines 227 to 243: \<^verbatim>\<open>transcoder.process\<close> runs on the record
  as it is in the store, and the worker marks the job as completed or failed and fires the
  callback. The run of the engine is one step here: what other coroutines do to the
  record while the engine runs is seen as done before it.
\<close>

definition worker_finish ::
  "TranscodeEngine \<Rightarrow> host \<Rightarrow> datetime \<Rightarrow> datetime \<Rightarrow> JobManager \<Rightarrow> JobManager" where
  "worker_finish eng h t_finished t_updated m =
    (case in_progress m of
       None \<Rightarrow> m
     | Some item \<Rightarrow>
         (case objects m (item_record item) of
            None \<Rightarrow> m\<lparr>in_progress := None\<rparr>
          | Some r \<Rightarrow>
              let (res, r1) = process_sync eng h r (item_request item);
                  r2 =
                    (case res of
                       Inr result \<Rightarrow>
                         r1\<lparr>transcode_finished_at := Some t_finished,
                            output_path := Some (result_output_path result),
                            status := completed, updated_at := t_updated\<rparr>
                     | Inl exc \<Rightarrow>
                         let r' = r1\<lparr>status := failed, updated_at := t_updated,
                                     error := Some (str_error exc)\<rparr>
                         in if transcode_finished_at r' = None \<and> transcode_started_at r' \<noteq> None
                            then r'\<lparr>transcode_finished_at := Some t_finished\<rparr> else r');
                  message = (case res of Inr result \<Rightarrow> ''completed'' | Inl exc \<Rightarrow> str_error exc)
              in m\<lparr>objects := (objects m)(item_record item := Some r2),
                   in_progress := None,
                   dispatched := fire_callback r2 (Some message) (dispatched m)\<rparr>))"

text \<open>
  The steps of the manager, and its run from a state through a list of them: the calls
  from outside (\<^verbatim>\<open>submit_job\<close>, \<^verbatim>\<open>cancel_job\<close>), the two parts of a round of the worker, a
  waiting put going on, and a round of the maintenance loop.
\<close>

datatype manager_op =
  Submit string datetime datetime datetime "string option" JobRequest
  | ResumePut
  | Cancel datetime string
  | WorkerGet datetime datetime
  | WorkerFinish host datetime datetime
  | Purge datetime

fun step :: "TranscodeEngine \<Rightarrow> JobManager \<Rightarrow> manager_op \<Rightarrow> JobManager" where
  "step eng m (Submit jid t0 t1 t2 fname request) = snd (submit_job m jid t0 t1 t2 fname request)"
| "step eng m ResumePut = resume_put m"
| "step eng m (Cancel now jid) = snd (cancel_job now m jid)"
| "step eng m (WorkerGet t_updated t_started) = worker_get t_updated t_started m"
| "step eng m (WorkerFinish h t_finished t_updated) = worker_finish eng h t_finished t_updated m"
| "step eng m (Purge now) = purge_expired_jobs now m"

definition run :: "TranscodeEngine \<Rightarrow> JobManager \<Rightarrow> manager_op list \<Rightarrow> JobManager" where
  "run eng m ops = foldl (step eng) m ops"

definition status_of :: "JobManager \<Rightarrow> nat \<Rightarrow> JobStatus option" where
  "status_of m ref = map_option status (objects m ref)"

text \<open>
  Two invariants of the manager, for the proofs. In a well-formed manager every reference
  that is held somewhere is below \<open>next_ref\<close>, and the job in progress has the status
  \<^verbatim>\<open>processing\<close> or \<^verbatim>\<open>cancelled\<close>. A job is cancelled and waiting when its status is
  \<^verbatim>\<open>cancelled\<close> and it is not the job in progress.
\<close>

definition well_formed :: "JobManager \<Rightarrow> bool" where
  "well_formed m =
    ((\<forall>item \<in> set (queue m) \<union> set (putters m). item_record item < next_ref m) \<and>
     (\<forall>jid ref. records m jid = Some ref \<longrightarrow> ref < next_ref m) \<and>
     (\<forall>item. in_progress m = Some item \<longrightarrow>
        item_record item < next_ref m \<and>
        status_of m (item_record item) \<in> {Some processing, Some cancelled}))"

definition cancelled_waiting :: "nat \<Rightarrow> JobManager \<Rightarrow> bool" where
  "cancelled_waiting ref m =
    (status_of m ref = Some cancelled \<and> ref < next_ref m \<and>
     (\<forall>item. in_progress m = Some item \<longrightarrow> item_record item \<noteq> ref))"

text \<open>The engine leaves the callback URL and the id of a record as they are.\<close>

definition same_job :: "JobRecord \<Rightarrow> JobRecord \<Rightarrow> bool" where
  "same_job r r' = (callback_url r' = callback_url r \<and> job_id r' = job_id r)"

section \<open>A concrete job\<close>

text \<open>
  A 4K H.264 source in an MP4 container, ten seconds long, submitted with an explicit
  h265 codec; an engine without hardware codecs; and an ffmpeg whose progress stream
  reports twelve seconds of processed media before it exits with code zero.
\<close>

definition example_record :: JobRecord where
  "example_record =
    \<lparr>job_id = ''j1'', status = processing, created_at = 0, updated_at = 1000000,
      source_path = ''/data/input/j1_a.mp4'', source_filename = ''a.mp4'', output_path = None,
      quality = quality_auto, codec = h265, callback_url = Some ''http://example.org/hook'',
      error = None, download_started_at = Some 0, download_finished_at = Some 500000,
      transcode_started_at = Some 1000000, transcode_finished_at = None,
      media_duration_seconds = Some 10, transcode_media_seconds = None\<rparr>"

definition example_info :: MediaInfo where
  "example_info =
    \<lparr>container = Some ''mov,mp4,m4a,3gp,3g2,mj2'', format_bit_rate = Some 20000000,
      duration = Some 10,
      video = Some \<lparr>codec_type = ''video'', codec_name = Some ''h264'', width = Some 3840,
                     height = Some 2160, bit_rate = None\<rparr>,
      audio = None\<rparr>"

definition example_request :: JobRequest where
  "example_request =
    \<lparr>request_quality = quality_auto, request_codec = h265,
      request_callback_url = Some ''http://example.org/hook''\<rparr>"

definition example_engine :: TranscodeEngine where
  "example_engine =
    \<lparr>ffmpeg_command = ''ffmpeg'', output_dir = ''/data/output'', work_dir = ''/data/work'',
      ffmpeg_decoders = {}, ffmpeg_encoders = {}\<rparr>"

definition example_host :: host where
  "example_host =
    \<lparr>probe_media = (\<lambda>p. Inr example_info), rga_exists = False,
      ffmpeg_process = (\<lambda>cmd. ([(2000000, ''out_time_ms=12000000'')], 0))\<rparr>"

definition uhd_profile :: QualityProfile where
  "uhd_profile = \<lparr>pname = uhd_2160p, pwidth = 3840, pheight = 2160,
                   video_bitrate = 8000000, pcodec = h265\<rparr>"

text \<open>
  A payload and an endpoint at which every POST fails; a manager with room for one job in
  its queue, after the submission of job \<^verbatim>\<open>j1\<close> with a callback URL; and a manager whose
  worker has handed the example job to the engine.
\<close>

definition example_payload :: CallbackPayload where
  "example_payload = \<lparr>payload_job_id = ''j1'', payload_status = completed,
     payload_output_path = Some ''/data/output/j1.mp4'', payload_message = Some ''completed''\<rparr>"

definition always_fails :: "int \<Rightarrow> py_error + unit" where
  "always_fails attempt = Inl (HTTPError ''connection refused'')"

definition full_manager :: JobManager where
  "full_manager = snd (submit_job (new_manager ''/data/input'' 1 120) ''j1'' 0 0 500000 (Some ''a.mp4'') example_request)"

definition busy_manager :: JobManager where
  "busy_manager =
    \<lparr>input_dir = ''/data/input'', max_queue_size = 50, job_retention_minutes = 120,
      queue = [], putters = [], records = (\<lambda>k. None)(''j1'' := Some 0),
      objects = (\<lambda>a. None)(0 := Some example_record), next_ref = 1,
      in_progress = Some \<lparr>item_record = 0, item_request = example_request\<rparr>,
      dispatched = []\<rparr>"

section \<open>Profile selection\<close>

lemma sorted_profiles_eq: "sorted_profiles = map snd PROFILES"
  by (simp add: sorted_profiles_def PROFILES_def)

lemma choose_profile_auto_cases:
  "choose_profile w h quality_auto =
    (if 2160 \<le> h \<or> 3840 \<le> w then PROFILES_getitem uhd_2160p
     else if 1080 \<le> h \<or> 1920 \<le> w then PROFILES_getitem fhd_1080p
     else if 720 \<le> h \<or> 1280 \<le> w then PROFILES_getitem hd_720p
     else PROFILES_getitem sd_480p)"
  by (simp add: choose_profile_def sorted_profiles_eq PROFILES_def PROFILES_getitem_def)

text \<open>
  Claim C5. In \<^verbatim>\<open>auto\<close> mode \<^verbatim>\<open>choose_profile\<close> returns a profile of the table. When some
  profile has height \<open>\<le>\<close> the source height or width \<open>\<le>\<close> the source width, the result is
  such a profile and no such profile is higher; when the source is smaller than every
  profile in both dimensions, the result is the SD-480p profile.
\<close>

theorem choose_profile_auto:
  "\<exists>p. choose_profile w h quality_auto = Inr p \<and> p \<in> snd ` set PROFILES \<and>
     (if \<exists>q \<in> snd ` set PROFILES. pheight q \<le> h \<or> pwidth q \<le> w
      then (pheight p \<le> h \<or> pwidth p \<le> w) \<and>
           (\<forall>q \<in> snd ` set PROFILES. (pheight q \<le> h \<or> pwidth q \<le> w) \<longrightarrow> pheight q \<le> pheight p)
      else PROFILES_getitem sd_480p = Inr p)"
  unfolding choose_profile_auto_cases
  by (simp add: PROFILES_def PROFILES_getitem_def)

theorem choose_profile_auto_witness:
  "\<exists>p. choose_profile 2000 1000 quality_auto = Inr p \<and> pname p = fhd_1080p \<and> pheight p = 1080"
  using choose_profile_auto [of 2000 1000]
  by (auto simp: PROFILES_def PROFILES_getitem_def)


section \<open>The derived view: progress and ETA\<close>

lemma to_detail_progress: "transcode_progress (to_detail now r) = fst (progress_eta now r)"
  by (simp add: to_detail_def Let_def split: prod.splits)

lemma to_detail_eta: "transcode_eta_seconds (to_detail now r) = snd (progress_eta now r)"
  by (simp add: to_detail_def Let_def split: prod.splits)

lemma progress_eta_fst:
  "fst (progress_eta now r) =
    (case (media_duration_seconds r, transcode_media_seconds r, transcode_started_at r) of
       (Some d, Some s, Some t) \<Rightarrow> if d = 0 then None else Some (min s d / d)
     | _ \<Rightarrow> None)"
  by (simp add: progress_eta_def Let_def split: option.splits)

lemma progress_eta_no_duration:
  "media_duration_seconds r = None \<Longrightarrow> snd (progress_eta now r) = None"
  by (simp add: progress_eta_def)

lemma progress_eta_finished:
  "transcode_finished_at r \<noteq> None \<Longrightarrow> snd (progress_eta now r) = None"
  by (auto simp: progress_eta_def Let_def split: option.splits)

lemma progress_eta_zero_processed:
  assumes "transcode_media_seconds r = Some 0"
  shows "snd (progress_eta now r) = None"
proof (cases "media_duration_seconds r")
  case None
  then show ?thesis by (simp add: progress_eta_def)
next
  case (Some d)
  show ?thesis
  proof (cases "transcode_started_at r")
    case None
    with Some assms show ?thesis by (simp add: progress_eta_def)
  next
    case started: (Some t)
    consider "d = 0" | "0 < d" | "d < 0" by linarith
    then show ?thesis
    proof cases
      case 1
      with Some assms started show ?thesis by (simp add: progress_eta_def)
    next
      case 2
      then have "min 0 d = 0" by simp
      with 2 Some assms started show ?thesis by (simp add: progress_eta_def Let_def)
    next
      case 3
      then have m: "min 0 d = d" by simp
      have "\<not> 0 < d / e" if "0 < e" for e :: real
        using that 3 by (simp add: zero_less_divide_iff)
      with 3 Some assms started m show ?thesis
        by (simp add: progress_eta_def Let_def)
    qed
  qed
qed

text \<open>
  Where the clamp of \<^verbatim>\<open>to_detail\<close> works: when the recorded processed media seconds are
  not negative, a progress that is not null lies between 0 and 1, also when they exceed
  the media duration.
\<close>

lemma to_detail_progress_clamped_above:
  assumes "transcode_progress (to_detail now r) = Some p"
    and "transcode_media_seconds r = Some s" and "0 \<le> s"
  shows "0 \<le> p \<and> p \<le> 1"
proof -
  from assms(1,2) obtain d where d: "media_duration_seconds r = Some d" "d \<noteq> 0"
    and p: "p = min s d / d"
    by (auto simp: to_detail_progress progress_eta_fst split: option.splits if_splits)
  show ?thesis
  proof (cases "0 < d")
    case True
    have "min s d \<le> d" by simp
    with True have "p \<le> 1" unfolding p by (simp add: divide_le_eq_1_pos)
    moreover from True \<open>0 \<le> s\<close> have "0 \<le> p" unfolding p by (simp add: min_def)
    ultimately show ?thesis by simp
  next
    case False
    with d(2) have "d < 0" by simp
    with \<open>0 \<le> s\<close> have "min s d = d" by simp
    with d(2) have "p = 1" unfolding p by simp
    then show ?thesis by simp
  qed
qed

lemma example_progress_clamped:
  "transcode_progress (to_detail 5000000 (example_record\<lparr>transcode_media_seconds := Some 12\<rparr>)) = Some 1"
  by (simp add: to_detail_progress progress_eta_fst example_record_def)

lemma example_py_int_negative:
  "py_int (after_equals (strip ''out_time_ms=-1000000'')) = Some (- 1000000)"
  by (simp add: py_int_def after_equals_def strip_def is_space_def int_strip_def
      is_int_space_def digit_val_def)

lemma example_progress_line_negative:
  "progress_line (Some (progress_closure 10)) (2000000, ''out_time_ms=-1000000'') example_record
    = example_record\<lparr>transcode_media_seconds := Some (- 1), updated_at := 2000000\<rparr>"
  by (simp add: progress_line_def startswith_def example_py_int_negative progress_closure_def
      update_progress_def example_record_def)

text \<open>
  Claim C6 at a record of a running transcode with a media duration of ten seconds, after
  the progress line \<^verbatim>\<open>out_time_ms=-1000000\<close>: the line is parsed and minus one second is
  stored, and the progress of the derived view is \<open>- 1 / 10\<close>, outside the interval from 0
  to 1. \<^verbatim>\<open>to_detail\<close> clamps the processed seconds from above (\<^verbatim>\<open>min\<close>) and not from below.
\<close>

theorem to_detail_progress_negative:
  "transcode_progress
     (to_detail 5000000
        (progress_line (Some (progress_closure 10)) (2000000, ''out_time_ms=-1000000'')
           example_record))
   = Some (- (1 / 10)) \<and> \<not> (0::real) \<le> - (1 / 10)"
  by (simp add: example_progress_line_negative)
     (simp add: to_detail_progress progress_eta_fst example_record_def)

text \<open>
  Claim C8. The ETA of the derived view is null whenever the media duration is unknown,
  the recorded processed media time is zero, or the transcode has finished
  (\<^verbatim>\<open>transcode_finished_at\<close> is set).
\<close>

theorem to_detail_eta_null:
  "media_duration_seconds r = None \<or> transcode_media_seconds r = Some 0
     \<or> transcode_finished_at r \<noteq> None
   \<Longrightarrow> transcode_eta_seconds (to_detail now r) = None"
  unfolding to_detail_eta
  using progress_eta_no_duration progress_eta_zero_processed progress_eta_finished by blast

theorem to_detail_eta_null_witness:
  "transcode_eta_seconds (to_detail 5000000 (example_record\<lparr>transcode_media_seconds := Some 0\<rparr>)) = None
   \<and> transcode_progress (to_detail 5000000 (example_record\<lparr>transcode_media_seconds := Some 0\<rparr>)) = Some 0"
  using to_detail_eta_null [of "example_record\<lparr>transcode_media_seconds := Some 0\<rparr>" 5000000]
  by (simp add: to_detail_progress progress_eta_fst example_record_def)

section \<open>The remux decision\<close>

lemma resolve_codec_not_auto: "resolve_codec info profile request \<noteq> codec_auto"
  by (auto simp: resolve_codec_def Let_def)

lemma should_remux_resolved:
  assumes "target_codec \<noteq> codec_auto"
  shows "should_remux info profile target_codec \<longleftrightarrow>
     (\<exists>v w h. video info = Some v \<and> width v = Some w \<and> height v = Some h \<and> w \<noteq> 0 \<and> h \<noteq> 0 \<and>
        map_codec_name (codec_name v) = Some target_codec \<and>
        is_mp4_container (container info) \<and> w \<le> pwidth profile \<and> h \<le> pheight profile)"
  using assms
  by (auto simp: should_remux_def Let_def split: option.splits)

lemma select_profile_dims:
  "select_profile info request = Inr p \<Longrightarrow>
    \<exists>v w h. video info = Some v \<and> width v = Some w \<and> height v = Some h \<and> w \<noteq> 0 \<and> h \<noteq> 0"
  by (auto simp: select_profile_def split: option.splits if_splits)

text \<open>
  Claim C4. For a probed source for which \<^verbatim>\<open>_select_profile\<close> chose a profile and
  \<^verbatim>\<open>_resolve_codec\<close> resolved the target codec, \<^verbatim>\<open>_should_remux\<close> is true if and only if the
  source codec, mapped to a supported codec, is the target codec, the container is an MP4
  container, and the source width and height do not exceed those of the profile.
\<close>

theorem should_remux_iff:
  assumes "select_profile info request = Inr profile"
    and "target_codec = resolve_codec info profile request"
  shows "should_remux info profile target_codec \<longleftrightarrow>
     (\<exists>v w h. video info = Some v \<and> width v = Some w \<and> height v = Some h \<and>
        map_codec_name (codec_name v) = Some target_codec \<and>
        is_mp4_container (container info) \<and> w \<le> pwidth profile \<and> h \<le> pheight profile)"
proof -
  have na: "target_codec \<noteq> codec_auto"
    using assms(2) by (simp add: resolve_codec_not_auto)
  from select_profile_dims [OF assms(1)] obtain v w h where
    v: "video info = Some v" "width v = Some w" "height v = Some h" "w \<noteq> 0" "h \<noteq> 0"
    by blast
  show ?thesis
    unfolding should_remux_resolved [OF na] using v by auto
qed

lemma lower_h264: "lower ''h264'' = ''h264''"
  by (simp add: lower_def lower_char_def)

lemma example_is_mp4: "is_mp4_container (Some ''mov,mp4,m4a,3gp,3g2,mj2'')"
  unfolding is_mp4_container_def by code_simp

lemma example_select_profile:
  "select_profile example_info (example_request\<lparr>request_codec := c\<rparr>) = Inr uhd_profile"
  by (simp add: select_profile_def example_info_def example_request_def uhd_profile_def
      choose_profile_auto_cases PROFILES_getitem_def PROFILES_def)

lemma example_resolve_auto:
  "resolve_codec example_info uhd_profile (example_request\<lparr>request_codec := codec_auto\<rparr>) = h264"
  by (simp add: resolve_codec_def example_request_def example_info_def map_codec_name_def
      lower_h264)

theorem should_remux_iff_witness:
  "should_remux example_info uhd_profile
     (resolve_codec example_info uhd_profile (example_request\<lparr>request_codec := codec_auto\<rparr>))"
proof -
  have t: "h264 = resolve_codec example_info uhd_profile (example_request\<lparr>request_codec := codec_auto\<rparr>)"
    by (simp add: example_resolve_auto)
  have "should_remux example_info uhd_profile h264"
    using should_remux_iff [OF example_select_profile t] example_is_mp4
    by (simp add: example_info_def uhd_profile_def map_codec_name_def lower_h264)
  then show ?thesis by (simp add: example_resolve_auto)
qed

section \<open>Processed media seconds and the media duration\<close>



lemma example_py_int: "py_int (after_equals (strip ''out_time_ms=12000000'')) = Some 12000000"
  by (simp add: py_int_def after_equals_def strip_def is_space_def int_strip_def
      is_int_space_def digit_val_def)

lemma example_progress_line:
  "progress_line (Some (progress_closure 10)) (2000000, ''out_time_ms=12000000'') example_record
    = example_record\<lparr>transcode_media_seconds := Some 12, updated_at := 2000000\<rparr>"
  by (simp add: progress_line_def startswith_def example_py_int progress_closure_def
      update_progress_def example_record_def)

lemma example_not_remux: "\<not> should_remux example_info p h265"
  by (simp add: should_remux_def example_info_def map_codec_name_def lower_h264)







section \<open>The callback dispatcher\<close>

lemma upto3: "[1 .. 3::int] = [1, 2, 3]"
  by code_simp

lemma dispatch_attempts_never_raises: "fst (dispatch_attempts post url payload as) = Inr ()"
  by (induction as) (auto split: sum.splits prod.splits)

lemma dispatch_attempts_posts:
  "length (filter (\<lambda>e. e = Post url payload) (snd (dispatch_attempts post url payload as)))
     \<le> length as"
  by (induction as) (auto split: sum.splits prod.splits)

text \<open>
  Claim C9 at an endpoint where every attempt fails, with three attempts allowed:
  \<^verbatim>\<open>dispatch\<close> raises nothing and posts three times, and it sleeps after each failed attempt,
  also for eight seconds after the third one, which no attempt follows.
\<close>

theorem dispatch_trailing_sleep:
  "dispatch \<lparr>callback_timeout = 10, max_attempts = 3\<rparr> always_fails ''http://example.org/hook'' example_payload
   = (Inr (), [Post ''http://example.org/hook'' example_payload, Sleep 2,
               Post ''http://example.org/hook'' example_payload, Sleep 4,
               Post ''http://example.org/hook'' example_payload, Sleep 8, Exhausted])"
  by (simp add: dispatch_def upto3 always_fails_def)


section \<open>Submission to a full queue\<close>

text \<open>
  Claim C1, as the code has it. A submission to a saturated queue raises no \<^verbatim>\<open>QueueFull\<close>:
  the record is stored in the dict with the status \<^verbatim>\<open>queued\<close>, the queue stays as it is,
  and the call is suspended in \<^verbatim>\<open>queue.put\<close> until a slot is free.
\<close>

theorem submit_job_saturated:
  assumes "queue_full m"
  shows "fst (submit_job m jid t0 t1 t2 fname request) = Suspended
    \<and> records (snd (submit_job m jid t0 t1 t2 fname request)) jid = Some (next_ref m)
    \<and> status_of (snd (submit_job m jid t0 t1 t2 fname request)) (next_ref m) = Some queued
    \<and> queue (snd (submit_job m jid t0 t1 t2 fname request)) = queue m
    \<and> putters (snd (submit_job m jid t0 t1 t2 fname request))
        = putters m @ [\<lparr>item_record = next_ref m, item_request = request\<rparr>]"
  using assms
  by (simp add: submit_job_def Let_def queue_full_def status_of_def)

lemma full_manager_full: "queue_full full_manager"
  by (simp add: full_manager_def submit_job_def new_manager_def queue_full_def Let_def)

lemma full_manager_fresh: "records full_manager ''j2'' = None"
  by (simp add: full_manager_def submit_job_def new_manager_def queue_full_def Let_def)

lemma full_manager_next_ref: "next_ref full_manager = 1"
  by (simp add: full_manager_def submit_job_def new_manager_def queue_full_def Let_def)

theorem submit_job_saturated_witness:
  "fst (submit_job full_manager ''j2'' 600000 600000 700000 (Some ''b.mp4'') example_request)
     = Suspended
   \<and> status_of
       (snd (submit_job full_manager ''j2'' 600000 600000 700000 (Some ''b.mp4'') example_request))
       1 = Some queued"
  using submit_job_saturated [OF full_manager_full,
      of "''j2''" 600000 600000 700000 "Some ''b.mp4''" example_request]
  by (simp add: full_manager_next_ref)

text \<open>
  The claim as stated fails: the queue holds its one job, the id \<^verbatim>\<open>j2\<close> is not in the
  dict, and the submission of \<^verbatim>\<open>j2\<close> does not raise \<^verbatim>\<open>QueueFull\<close> and leaves an entry for
  \<^verbatim>\<open>j2\<close> in the dict.
\<close>

theorem submit_job_counterexample:
  "queue_full full_manager \<and> records full_manager ''j2'' = None
   \<and> fst (submit_job full_manager ''j2'' 600000 600000 700000 (Some ''b.mp4'') example_request)
       \<noteq> Raised QueueFull
   \<and> records
       (snd (submit_job full_manager ''j2'' 600000 600000 700000 (Some ''b.mp4'') example_request))
       ''j2'' = Some 1"
  by (simp add: full_manager_full full_manager_fresh)
     (simp add: full_manager_def submit_job_def new_manager_def queue_full_def Let_def)

section \<open>Callbacks at terminal transitions\<close>

lemma update_progress_keeps:
  "callback_url (update_progress r s d now) = callback_url r"
  "job_id (update_progress r s d now) = job_id r"
  "status (update_progress r s d now) = status r"
  by (simp_all add: update_progress_def Let_def)

lemma same_job_refl: "same_job r r"
  by (simp add: same_job_def)

lemma same_job_trans: "same_job a b \<Longrightarrow> same_job b c \<Longrightarrow> same_job a c"
  by (simp add: same_job_def)

lemma progress_line_same:
  "same_job r (progress_line None l r)"
  "same_job r (progress_line (Some (progress_closure d)) l r)"
  by (simp_all add: progress_line_def progress_closure_def same_job_def update_progress_keeps
      split: option.splits)

lemma fold_progress_line_same:
  "ph = None \<or> ph = Some (progress_closure d) \<Longrightarrow> same_job r (fold (progress_line ph) ls r)"
proof (induction ls arbitrary: r)
  case Nil
  then show ?case by (simp add: same_job_refl)
next
  case (Cons l ls)
  from Cons.prems have "same_job r (progress_line ph l r)"
    using progress_line_same by (cases l) auto
  moreover have "same_job (progress_line ph l r) (fold (progress_line ph) ls (progress_line ph l r))"
    using Cons.IH [OF Cons.prems] .
  ultimately show ?case
    using same_job_trans by simp
qed

lemma run_ffmpeg_same:
  "ph = None \<or> ph = Some (progress_closure d) \<Longrightarrow> same_job r (snd (run_ffmpeg h cmd action ph r))"
  by (auto simp: run_ffmpeg_def Let_def same_job_refl fold_progress_line_same
      split: list.splits prod.splits)

lemma remux_same: "same_job r (snd (remux eng h src dst r))"
  by (simp add: remux_def run_ffmpeg_same)

lemma transcode_cpu_same: "same_job r (snd (transcode_cpu eng h r src dst p c))"
  by (simp add: transcode_cpu_def Let_def run_ffmpeg_same)

lemma rkmpp_candidates_same:
  "same_job r (snd (rkmpp_candidates h base enc p dst cands le r))"
proof (induction cands arbitrary: le r)
  case Nil
  then show ?case by (simp add: same_job_refl split: option.splits)
next
  case (Cons c cands)
  obtain label fexp where c: "c = (label, fexp)" by (cases c)
  obtain res r' where run:
    "run_ffmpeg h (rkmpp_cmd base fexp enc p dst) (''transcode-rkmpp-'' @ label)
       (Some (progress_closure (duration_or_zero r))) r = (res, r')"
    by (cases "run_ffmpeg h (rkmpp_cmd base fexp enc p dst) (''transcode-rkmpp-'' @ label)
       (Some (progress_closure (duration_or_zero r))) r")
  have "same_job r (snd (run_ffmpeg h (rkmpp_cmd base fexp enc p dst) (''transcode-rkmpp-'' @ label)
       (Some (progress_closure (duration_or_zero r))) r))"
    by (rule run_ffmpeg_same [where d = "duration_or_zero r"]) simp
  then have s1: "same_job r r'"
    unfolding run by simp
  show ?case
  proof (cases res)
    case (Inr u)
    then show ?thesis using s1 run by (simp add: c Let_def del: append.simps)
  next
    case (Inl e)
    have "same_job r' (snd (rkmpp_candidates h base enc p dst cands (Some e) r'))"
      by (rule Cons.IH)
    with s1 have "same_job r (snd (rkmpp_candidates h base enc p dst cands (Some e) r'))"
      by (rule same_job_trans)
    with Inl s1 run show ?thesis by (simp add: c Let_def del: append.simps)
  qed
qed

lemma transcode_rkmpp_same: "same_job r (snd (transcode_rkmpp eng h r src dst p d e))"
  by (simp add: transcode_rkmpp_def Let_def rkmpp_candidates_same)

lemma set_duration_same: "same_job r (r\<lparr>media_duration_seconds := x\<rparr>)"
  by (simp add: same_job_def)

lemma remux_or_transcode_same:
  "same_job r (snd (snd (remux_or_transcode eng h info p c src dst r)))"
  by (simp add: remux_or_transcode_def Let_def remux_same transcode_cpu_same transcode_rkmpp_same
      split: prod.splits)

lemma process_sync_same: "same_job r (snd (process_sync eng h r request))"
proof (cases "probe_media h (source_path r)")
  case (Inl e)
  then show ?thesis by (simp add: process_sync_def same_job_refl)
next
  case info: (Inr info)
  show ?thesis
  proof (cases "select_profile info request")
    case (Inl e)
    with info show ?thesis by (simp add: process_sync_def same_job_refl)
  next
    case (Inr profile)
    let ?r1 = "r\<lparr>media_duration_seconds := duration info\<rparr>"
    let ?mid = "remux_or_transcode eng h info profile (resolve_codec info profile request)
                  (source_path r) (work_dir eng @ ''/'' @ job_id r @ ''.mp4'') ?r1"
    obtain b res r2 where mid: "?mid = (b, res, r2)"
      by (cases ?mid) auto
    have "same_job ?r1 (snd (snd ?mid))"
      by (rule remux_or_transcode_same)
    then have "same_job ?r1 r2" unfolding mid by simp
    then have r2: "same_job r r2"
      by (simp add: same_job_def)
    show ?thesis
      using r2 mid info Inr unfolding process_sync_def
      by (cases res) (simp_all add: Let_def same_job_def del: append.simps)
  qed
qed

lemma worker_finish_status:
  assumes "in_progress m = Some item" and "objects m (item_record item) = Some r"
  shows "\<exists>r'. objects (worker_finish eng h t1 t2 m) (item_record item) = Some r' \<and>
           status r' \<in> {completed, failed} \<and> same_job r r' \<and>
           dispatched (worker_finish eng h t1 t2 m) =
             fire_callback r' (Some (if status r' = completed then ''completed'' else the (error r')))
               (dispatched m)"
proof -
  obtain res r1 where ps: "process_sync eng h r (item_request item) = (res, r1)"
    by (cases "process_sync eng h r (item_request item)")
  have sj: "same_job r r1"
    using process_sync_same [of r eng h "item_request item"] by (simp add: ps)
  show ?thesis
  proof (cases res)
    case (Inl exc)
    with assms ps sj show ?thesis
      by (simp add: worker_finish_def Let_def same_job_def)
  next
    case (Inr result)
    with assms ps sj show ?thesis
      by (simp add: worker_finish_def Let_def same_job_def)
  qed
qed

text \<open>
  Claim C2, as the code has it. For a job with a callback URL, the transition that the
  worker makes at the end of a round, to \<^verbatim>\<open>completed\<close> or \<^verbatim>\<open>failed\<close>, adds exactly one call
  of the dispatcher, with the URL of the job and its new status; in every state of the
  manager, \<^verbatim>\<open>cancel_job\<close> adds none, and neither does the worker when it takes a job from
  the queue or skips a cancelled one.
\<close>

theorem worker_finish_dispatches_once:
  "(in_progress m = Some item \<and> objects m (item_record item) = Some r \<and>
    callback_url r = Some u \<and> u \<noteq> [] \<longrightarrow>
      (\<exists>r' p. objects (worker_finish eng h t1 t2 m) (item_record item) = Some r' \<and>
            status r' \<in> {completed, failed} \<and>
            dispatched (worker_finish eng h t1 t2 m) = dispatched m @ [(u, p)] \<and>
            payload_status p = status r' \<and> payload_job_id p = job_id r))
   \<and> dispatched (snd (cancel_job now m jid)) = dispatched m
   \<and> dispatched (worker_get ta tb m) = dispatched m"
proof (intro conjI impI)
  assume a: "in_progress m = Some item \<and> objects m (item_record item) = Some r \<and>
    callback_url r = Some u \<and> u \<noteq> []"
  then have a1: "in_progress m = Some item" and a2: "objects m (item_record item) = Some r"
    and a3: "callback_url r = Some u" and a4: "u \<noteq> []"
    by simp_all
  from worker_finish_status [OF a1 a2] obtain r' where
    r': "objects (worker_finish eng h t1 t2 m) (item_record item) = Some r'"
      "status r' \<in> {completed, failed}" "same_job r r'"
      "dispatched (worker_finish eng h t1 t2 m) =
         fire_callback r' (Some (if status r' = completed then ''completed'' else the (error r')))
           (dispatched m)"
    by blast
  from r'(3) a3 have cu: "callback_url r' = Some u" and ji: "job_id r' = job_id r"
    by (simp_all add: same_job_def)
  show "\<exists>r' p. objects (worker_finish eng h t1 t2 m) (item_record item) = Some r' \<and>
            status r' \<in> {completed, failed} \<and>
            dispatched (worker_finish eng h t1 t2 m) = dispatched m @ [(u, p)] \<and>
            payload_status p = status r' \<and> payload_job_id p = job_id r"
    using r'(1,2,4) cu ji a4
    by (intro exI [of _ r']) (simp add: fire_callback_def)
next
  show "dispatched (snd (cancel_job now m jid)) = dispatched m"
    by (simp add: cancel_job_def split: option.splits)
next
  show "dispatched (worker_get ta tb m) = dispatched m"
    by (simp add: worker_get_def Let_def split: option.splits list.splits)
qed

theorem worker_finish_dispatches_once_witness:
  "length (dispatched (worker_finish example_engine example_host 3000000 3100000 busy_manager)) = 1
   \<and> dispatched busy_manager = []
   \<and> dispatched (snd (cancel_job 900000 full_manager ''j1'')) = dispatched full_manager
   \<and> dispatched (worker_get 950000 950000 (snd (cancel_job 900000 full_manager ''j1'')))
       = dispatched (snd (cancel_job 900000 full_manager ''j1''))"
proof -
  have a: "in_progress busy_manager = Some \<lparr>item_record = 0, item_request = example_request\<rparr>"
    by (simp add: busy_manager_def)
  have b: "objects busy_manager (item_record \<lparr>item_record = 0, item_request = example_request\<rparr>)
            = Some example_record"
    by (simp add: busy_manager_def)
  have c: "callback_url example_record = Some ''http://example.org/hook''"
    by (simp add: example_record_def)
  have d: "''http://example.org/hook'' \<noteq> []" by simp
  from worker_finish_dispatches_once
    [of busy_manager "\<lparr>item_record = 0, item_request = example_request\<rparr>" example_record
        "''http://example.org/hook''" example_engine example_host 3000000 3100000]
    a b c d
  obtain p where
    "dispatched (worker_finish example_engine example_host 3000000 3100000 busy_manager)
      = dispatched busy_manager @ [(''http://example.org/hook'', p)]"
    by blast
  then have 1: "length (dispatched (worker_finish example_engine example_host 3000000 3100000
      busy_manager)) = 1 \<and> dispatched busy_manager = []"
    by (simp add: busy_manager_def)
  from worker_finish_dispatches_once [of full_manager _ _ _ _ _ _ _ 900000 "''j1''"]
  have 2: "dispatched (snd (cancel_job 900000 full_manager ''j1'')) = dispatched full_manager"
    by blast
  from worker_finish_dispatches_once
    [of "snd (cancel_job 900000 full_manager ''j1'')" _ _ _ _ _ _ _ _ _ 950000 950000]
  have 3: "dispatched (worker_get 950000 950000 (snd (cancel_job 900000 full_manager ''j1'')))
       = dispatched (snd (cancel_job 900000 full_manager ''j1''))"
    by blast
  from 1 2 3 show ?thesis by blast
qed

text \<open>
  The claim as stated fails: job \<^verbatim>\<open>j1\<close> has a callback URL and is queued; \<^verbatim>\<open>cancel_job\<close>
  returns true and the job is cancelled, a terminal state, with no call to the
  dispatcher, and none follows when the worker takes the job from the queue and skips it.
\<close>

theorem cancel_job_no_callback:
  "callback_url (the (objects full_manager 0)) = Some ''http://example.org/hook''
   \<and> status_of full_manager 0 = Some queued
   \<and> fst (cancel_job 900000 full_manager ''j1'')
   \<and> status_of (snd (cancel_job 900000 full_manager ''j1'')) 0 = Some cancelled
   \<and> dispatched (snd (cancel_job 900000 full_manager ''j1'')) = []
   \<and> dispatched (worker_get 950000 950000 (snd (cancel_job 900000 full_manager ''j1''))) = []"
  by (simp add: full_manager_def submit_job_def new_manager_def queue_full_def Let_def
      cancel_job_def status_of_def worker_get_def example_request_def)

section \<open>Cancellation\<close>

lemma well_formed_new: "well_formed (new_manager idir maxsize retention)"
  by (simp add: well_formed_def new_manager_def)

lemma well_formed_submit:
  "well_formed m \<Longrightarrow> well_formed (snd (submit_job m jid t0 t1 t2 fname request))"
  by (auto simp: well_formed_def submit_job_def Let_def status_of_def less_Suc_eq)

lemma well_formed_resume: "well_formed m \<Longrightarrow> well_formed (resume_put m)"
  by (auto simp: well_formed_def resume_put_def status_of_def split: list.splits)

lemma well_formed_cancel: "well_formed m \<Longrightarrow> well_formed (snd (cancel_job now m jid))"
  by (auto simp: well_formed_def cancel_job_def status_of_def split: option.splits)

lemma well_formed_get: "well_formed m \<Longrightarrow> well_formed (worker_get ta tb m)"
  by (auto simp: well_formed_def worker_get_def status_of_def Let_def split: option.splits list.splits)

lemma well_formed_finish: "well_formed m \<Longrightarrow> well_formed (worker_finish eng h ta tb m)"
  by (auto simp: well_formed_def worker_finish_def status_of_def Let_def split: option.splits prod.splits)

lemma well_formed_purge: "well_formed m \<Longrightarrow> well_formed (purge_expired_jobs now m)"
  by (auto simp: well_formed_def purge_expired_jobs_def status_of_def Let_def split: option.splits if_splits)

lemma well_formed_step: "well_formed m \<Longrightarrow> well_formed (step eng m x)"
  by (cases x)
     (simp_all add: well_formed_submit well_formed_resume well_formed_cancel well_formed_get
        well_formed_finish well_formed_purge)

lemma well_formed_run: "well_formed m \<Longrightarrow> well_formed (run eng m ops)"
  unfolding run_def by (induction ops arbitrary: m) (simp_all add: well_formed_step)


lemma cancelled_waiting_submit:
  "cancelled_waiting ref m \<Longrightarrow> cancelled_waiting ref (snd (submit_job m jid t0 t1 t2 fname request))"
  by (auto simp: cancelled_waiting_def submit_job_def Let_def status_of_def)

lemma cancelled_waiting_resume: "cancelled_waiting ref m \<Longrightarrow> cancelled_waiting ref (resume_put m)"
  by (auto simp: cancelled_waiting_def resume_put_def status_of_def split: list.splits)

lemma cancelled_waiting_cancel:
  "cancelled_waiting ref m \<Longrightarrow> cancelled_waiting ref (snd (cancel_job now m jid))"
  by (auto simp: cancelled_waiting_def cancel_job_def status_of_def split: option.splits)

lemma cancelled_waiting_get: "cancelled_waiting ref m \<Longrightarrow> cancelled_waiting ref (worker_get ta tb m)"
  by (auto simp: cancelled_waiting_def worker_get_def status_of_def Let_def
      split: option.splits list.splits)

lemma cancelled_waiting_finish:
  "cancelled_waiting ref m \<Longrightarrow> cancelled_waiting ref (worker_finish eng h ta tb m)"
  by (auto simp: cancelled_waiting_def worker_finish_def status_of_def Let_def
      split: option.splits prod.splits)

lemma cancelled_waiting_purge:
  "cancelled_waiting ref m \<Longrightarrow> cancelled_waiting ref (purge_expired_jobs now m)"
  by (auto simp: cancelled_waiting_def purge_expired_jobs_def status_of_def Let_def)

lemma cancelled_waiting_step: "cancelled_waiting ref m \<Longrightarrow> cancelled_waiting ref (step eng m x)"
  by (cases x)
     (simp_all add: cancelled_waiting_submit cancelled_waiting_resume cancelled_waiting_cancel
        cancelled_waiting_get cancelled_waiting_finish cancelled_waiting_purge)

lemma cancelled_waiting_run: "cancelled_waiting ref m \<Longrightarrow> cancelled_waiting ref (run eng m ops)"
  unfolding run_def by (induction ops arbitrary: m) (simp_all add: cancelled_waiting_step)

lemma cancel_queued:
  assumes "well_formed m" and "records m jid = Some ref" and "status_of m ref = Some queued"
  shows "fst (cancel_job now m jid)" and "cancelled_waiting ref (snd (cancel_job now m jid))"
  using assms
  by (auto simp: well_formed_def cancelled_waiting_def cancel_job_def status_of_def
      split: option.splits)

lemma cancel_refused:
  assumes "records m jid = None \<or>
           (\<exists>ref. records m jid = Some ref \<and>
                  status_of m ref \<in> {Some completed, Some failed, Some cancelled})"
  shows "cancel_job now m jid = (False, m)"
  using assms
  by (auto simp: cancel_job_def status_of_def split: option.splits)

lemma worker_get_skips:
  assumes "in_progress m = None" and "queue m = item # rest"
    and "status_of m (item_record item) = Some cancelled"
  shows "worker_get ta tb m = m\<lparr>queue := rest\<rparr>"
  using assms
  by (auto simp: worker_get_def status_of_def Let_def split: option.splits)

text \<open>
  Claim C7. In a manager reached from a new one by any steps: when the job is queued,
  \<^verbatim>\<open>cancel_job\<close> returns true, and after it, whatever steps follow, the status of the job
  stays \<^verbatim>\<open>cancelled\<close>, so the worker never sets it to \<^verbatim>\<open>processing\<close>; when the worker
  takes the job from the queue it only removes it. When the id is unknown or the job is
  completed, failed or cancelled, \<^verbatim>\<open>cancel_job\<close> returns false and the manager, with every
  record, is as it was.
\<close>

theorem cancel_job_guarantees:
  assumes "m = run eng (new_manager idir maxsize retention) ops0"
  shows "(records m jid = Some ref \<and> status_of m ref = Some queued \<longrightarrow>
            fst (cancel_job now m jid) \<and>
            (\<forall>ops. status_of (run eng (snd (cancel_job now m jid)) ops) ref = Some cancelled) \<and>
            (\<forall>ops item rest ta tb.
               in_progress (run eng (snd (cancel_job now m jid)) ops) = None \<and>
               queue (run eng (snd (cancel_job now m jid)) ops) = item # rest \<and>
               item_record item = ref \<longrightarrow>
               worker_get ta tb (run eng (snd (cancel_job now m jid)) ops) =
                 (run eng (snd (cancel_job now m jid)) ops)\<lparr>queue := rest\<rparr>))
       \<and> (records m jid = None \<or>
            (\<exists>ref'. records m jid = Some ref' \<and>
                    status_of m ref' \<in> {Some completed, Some failed, Some cancelled}) \<longrightarrow>
            cancel_job now m jid = (False, m))"
proof (intro conjI impI)
  assume q: "records m jid = Some ref \<and> status_of m ref = Some queued"
  have wf: "well_formed m"
    unfolding assms by (rule well_formed_run [OF well_formed_new])
  from cancel_queued [OF wf] q show "fst (cancel_job now m jid)" by blast
  from cancel_queued [OF wf] q have cw: "cancelled_waiting ref (snd (cancel_job now m jid))"
    by blast
  have st: "status_of (run eng (snd (cancel_job now m jid)) ops) ref = Some cancelled" for ops
    using cancelled_waiting_run [OF cw, of eng ops] by (simp add: cancelled_waiting_def)
  then show "\<forall>ops. status_of (run eng (snd (cancel_job now m jid)) ops) ref = Some cancelled"
    by blast
  show "\<forall>ops item rest ta tb.
               in_progress (run eng (snd (cancel_job now m jid)) ops) = None \<and>
               queue (run eng (snd (cancel_job now m jid)) ops) = item # rest \<and>
               item_record item = ref \<longrightarrow>
               worker_get ta tb (run eng (snd (cancel_job now m jid)) ops) =
                 (run eng (snd (cancel_job now m jid)) ops)\<lparr>queue := rest\<rparr>"
    using st worker_get_skips by blast
next
  assume "records m jid = None \<or>
            (\<exists>ref'. records m jid = Some ref' \<and>
                    status_of m ref' \<in> {Some completed, Some failed, Some cancelled})"
  then show "cancel_job now m jid = (False, m)" by (rule cancel_refused)
qed

lemma full_manager_run:
  "full_manager =
    run example_engine (new_manager ''/data/input'' 1 120)
      [Submit ''j1'' 0 0 500000 (Some ''a.mp4'') example_request]"
  by (simp add: full_manager_def run_def)

lemma full_manager_j1:
  "records full_manager ''j1'' = Some 0" "status_of full_manager 0 = Some queued"
  "records full_manager ''j9'' = None"
  by (simp_all add: full_manager_def submit_job_def new_manager_def queue_full_def Let_def
      status_of_def)

theorem cancel_job_guarantees_witness:
  "fst (cancel_job 900000 full_manager ''j1'')
   \<and> status_of
       (run example_engine (snd (cancel_job 900000 full_manager ''j1''))
          [WorkerGet 950000 950000, ResumePut])
       0 = Some cancelled
   \<and> cancel_job 900000 full_manager ''j9'' = (False, full_manager)"
  using cancel_job_guarantees [OF full_manager_run, of "''j1''" 0 900000]
    cancel_job_guarantees [OF full_manager_run, of "''j9''" 0 900000]
  by (simp add: full_manager_j1)

section \<open>Rate control of the hardware h265 encoder\<close>

lemma rate_bits_values:
  "rate_bits ''8M'' = Some 8000000" "rate_bits ''12M'' = Some 12000000"
  "rate_bits ''18M'' = Some 18000000" "rate_bits ''5M'' = Some 5000000"
  "rate_bits ''3M'' = Some 3000000"
  by (simp_all add: rate_bits_def digit_val_def)

lemma rate_triple_hevc:
  "rate_triple (hevc_rate_control w) =
    (if 3800 \<le> w then Some (8000000, 12000000, 18000000)
     else if 2500 \<le> w then Some (5000000, 8000000, 12000000)
     else Some (3000000, 5000000, 8000000))"
  by (simp add: rate_triple_def hevc_rate_control_def rate_bits_values)

lemma lower_hevc_rkmpp: "lower ''hevc_rkmpp'' = ''hevc_rkmpp''"
  by (simp add: lower_def lower_char_def)

lemma select_rkmpp_codecs_hevc:
  "''hevc_rkmpp'' \<in> ffmpeg_encoders eng \<Longrightarrow>
    select_rkmpp_codecs eng info h265 =
      (True, fst (snd (select_rkmpp_codecs eng info h265)), ''hevc_rkmpp'')"
  by (simp add: select_rkmpp_codecs_def rkmpp_encoder_name_def truthy_name_def or_empty_def
      lower_hevc_rkmpp Let_def)

lemma remux_or_transcode_hevc:
  assumes "''hevc_rkmpp'' \<in> ffmpeg_encoders eng" and "\<not> should_remux info profile h265"
  shows "remux_or_transcode eng h info profile h265 src dst r =
    (False, transcode_rkmpp eng h r src dst profile
              (fst (snd (select_rkmpp_codecs eng info h265))) ''hevc_rkmpp'')"
proof -
  obtain d where s: "select_rkmpp_codecs eng info h265 = (True, d, ''hevc_rkmpp'')"
    using select_rkmpp_codecs_hevc [OF assms(1)] by blast
  show ?thesis
    using assms(2) by (simp add: remux_or_transcode_def s)
qed

lemma rkmpp_candidates_last:
  "rkmpp_candidates h base enc profile dst [(label, f)] None r =
    run_ffmpeg h (rkmpp_cmd base f enc profile dst) (''transcode-rkmpp-'' @ label)
      (Some (progress_closure (duration_or_zero r))) r"
proof -
  obtain res r' where run:
    "run_ffmpeg h (rkmpp_cmd base f enc profile dst) (''transcode-rkmpp-'' @ label)
      (Some (progress_closure (duration_or_zero r))) r = (res, r')"
    by (cases "run_ffmpeg h (rkmpp_cmd base f enc profile dst) (''transcode-rkmpp-'' @ label)
      (Some (progress_closure (duration_or_zero r))) r")
  show ?thesis
    unfolding rkmpp_candidates.simps Let_def run
    by (cases res) simp_all
qed

lemma rkmpp_candidates_last_after:
  "rkmpp_candidates h base enc profile dst [(label, f)] (Some e0) r =
    run_ffmpeg h (rkmpp_cmd base f enc profile dst) (''transcode-rkmpp-'' @ label)
      (Some (progress_closure (duration_or_zero r))) r"
proof -
  obtain res r' where run:
    "run_ffmpeg h (rkmpp_cmd base f enc profile dst) (''transcode-rkmpp-'' @ label)
      (Some (progress_closure (duration_or_zero r))) r = (res, r')"
    by (cases "run_ffmpeg h (rkmpp_cmd base f enc profile dst) (''transcode-rkmpp-'' @ label)
      (Some (progress_closure (duration_or_zero r))) r")
  show ?thesis
    unfolding rkmpp_candidates.simps Let_def run
    by (cases res) simp_all
qed

lemma transcode_rkmpp_runs:
  "transcode_rkmpp eng h r src dst profile dec enc =
    (let base_cmd = [ffmpeg_command eng, ''-hide_banner'', ''-loglevel'', ''error'', ''-y'']
                    @ (if dec \<noteq> [] then [''-hwaccel'', ''rkmpp'', ''-c:v'', dec] else [])
                    @ [''-i'', src];
         format_run = (\<lambda>r0. run_ffmpeg h
             (rkmpp_cmd base_cmd ''format=nv12,pad=ceil(iw/16)*16:ceil(ih/16)*16'' enc profile dst)
             ''transcode-rkmpp-format'' (Some (progress_closure (duration_or_zero r0))) r0)
     in if rga_exists h then
          (case run_ffmpeg h
                  (rkmpp_cmd base_cmd ''rkrga=fmt=nv12,pad=ceil(iw/16)*16:ceil(ih/16)*16'' enc
                     profile dst)
                  ''transcode-rkmpp-rkrga'' (Some (progress_closure (duration_or_zero r))) r of
             (Inr u, r') \<Rightarrow> (Inr (), r')
           | (Inl e, r') \<Rightarrow> if is_RuntimeError e then format_run r' else (Inl e, r'))
        else format_run r)"
proof (cases "rga_exists h")
  case False
  then show ?thesis
    using rkmpp_candidates_last [of h _ enc profile dst "''format''"]
    by (simp add: transcode_rkmpp_def Let_def)
next
  case True
  let ?base = "[ffmpeg_command eng, ''-hide_banner'', ''-loglevel'', ''error'', ''-y'']
                    @ (if dec \<noteq> [] then [''-hwaccel'', ''rkmpp'', ''-c:v'', dec] else [])
                    @ [''-i'', src]"
  obtain res r' where run:
    "run_ffmpeg h (rkmpp_cmd ?base ''rkrga=fmt=nv12,pad=ceil(iw/16)*16:ceil(ih/16)*16'' enc
        profile dst) (''transcode-rkmpp-'' @ ''rkrga'')
        (Some (progress_closure (duration_or_zero r))) r = (res, r')"
    by (cases "run_ffmpeg h (rkmpp_cmd ?base ''rkrga=fmt=nv12,pad=ceil(iw/16)*16:ceil(ih/16)*16'' enc
        profile dst) (''transcode-rkmpp-'' @ ''rkrga'')
        (Some (progress_closure (duration_or_zero r))) r")
  have cands: "rkmpp_candidates h ?base enc profile dst
      [(''rkrga'', ''rkrga=fmt=nv12,pad=ceil(iw/16)*16:ceil(ih/16)*16''),
       (''format'', ''format=nv12,pad=ceil(iw/16)*16:ceil(ih/16)*16'')] None r =
      (case res of
         Inr u \<Rightarrow> (Inr (), r')
       | Inl e \<Rightarrow>
           if is_RuntimeError e
           then run_ffmpeg h
                  (rkmpp_cmd ?base ''format=nv12,pad=ceil(iw/16)*16:ceil(ih/16)*16'' enc profile dst)
                  (''transcode-rkmpp-'' @ ''format'')
                  (Some (progress_closure (duration_or_zero r'))) r'
           else (Inl e, r'))"
    unfolding rkmpp_candidates.simps(2) [of h ?base enc profile dst "''rkrga''"] Let_def run
    by (cases res) (simp_all add: rkmpp_candidates_last_after del: rkmpp_candidates.simps)
  show ?thesis
    using True cands run
    by (cases res) (simp_all add: transcode_rkmpp_def Let_def del: rkmpp_candidates.simps)
qed


lemma rkmpp_cmd_hevc:
  "rkmpp_cmd base_cmd filter_expr ''hevc_rkmpp'' profile dest =
       base_cmd @ [''-vf'', filter_expr, ''-c:v'', ''hevc_rkmpp'', ''-pix_fmt'', ''nv12'',
                   ''-profile:v'', ''main'', ''-tag:v'', ''hvc1'',
                   ''-b:v'', fst (hevc_rate_control (pwidth profile)),
                   ''-maxrate'', fst (snd (hevc_rate_control (pwidth profile))),
                   ''-bufsize'', snd (snd (hevc_rate_control (pwidth profile))),
                   ''-g'', ''240'', ''-movflags'', ''+faststart'', ''-c:a'', ''aac'',
                   ''-b:a'', ''128k'', dest]"
  by (simp add: rkmpp_cmd_def split: prod.splits)

lemma transcode_rkmpp_hevc:
  "transcode_rkmpp eng h r src dst profile dec ''hevc_rkmpp'' =
      (let tiered_cmd = (\<lambda>filter_expr.
             [ffmpeg_command eng, ''-hide_banner'', ''-loglevel'', ''error'', ''-y'']
             @ (if dec \<noteq> [] then [''-hwaccel'', ''rkmpp'', ''-c:v'', dec] else [])
             @ [''-i'', src]
             @ [''-vf'', filter_expr, ''-c:v'', ''hevc_rkmpp'', ''-pix_fmt'', ''nv12'',
                ''-profile:v'', ''main'', ''-tag:v'', ''hvc1'',
                ''-b:v'', fst (hevc_rate_control (pwidth profile)),
                ''-maxrate'', fst (snd (hevc_rate_control (pwidth profile))),
                ''-bufsize'', snd (snd (hevc_rate_control (pwidth profile))),
                ''-g'', ''240'', ''-movflags'', ''+faststart'', ''-c:a'', ''aac'',
                ''-b:a'', ''128k'', dst]);
           format_run = (\<lambda>r0. run_ffmpeg h
             (tiered_cmd ''format=nv12,pad=ceil(iw/16)*16:ceil(ih/16)*16'')
             ''transcode-rkmpp-format'' (Some (progress_closure (duration_or_zero r0))) r0)
       in if rga_exists h then
            (case run_ffmpeg h (tiered_cmd ''rkrga=fmt=nv12,pad=ceil(iw/16)*16:ceil(ih/16)*16'')
                    ''transcode-rkmpp-rkrga'' (Some (progress_closure (duration_or_zero r))) r of
               (Inr u, r') \<Rightarrow> (Inr (), r')
             | (Inl e, r') \<Rightarrow> if is_RuntimeError e then format_run r' else (Inl e, r'))
          else format_run r)"
  unfolding transcode_rkmpp_runs rkmpp_cmd_hevc Let_def
  by (simp split: prod.splits sum.splits)

text \<open>
  Claim C10. \<^verbatim>\<open>_hevc_rate_control\<close> has exactly the three tiers of the claim; read as bits
  per second, each of its three components is non-decreasing in the width. The command
  built for the encoder \<^verbatim>\<open>hevc_rkmpp\<close> carries this triple as \<^verbatim>\<open>-b:v\<close>, \<^verbatim>\<open>-maxrate\<close> and
  \<^verbatim>\<open>-bufsize\<close>, not the bitrate of the profile; \<^verbatim>\<open>_transcode_rkmpp\<close> with that encoder runs
  ffmpeg on such commands only, first with the \<^verbatim>\<open>rkrga\<close> filter when \<^verbatim>\<open>/dev/rga\<close> exists,
  then with the \<^verbatim>\<open>format\<close> filter; and when the engine has the encoder \<^verbatim>\<open>hevc_rkmpp\<close> and
  the job is not remuxed, a job with the target codec h265 takes this path.
\<close>

theorem hevc_rate_control_tiers:
  "hevc_rate_control w =
     (if 3800 \<le> w then (''8M'', ''12M'', ''18M'')
      else if 2500 \<le> w then (''5M'', ''8M'', ''12M'')
      else (''3M'', ''5M'', ''8M''))
   \<and> (\<exists>b1 m1 s1 b2 m2 s2.
         rate_triple (hevc_rate_control w1) = Some (b1, m1, s1) \<and>
         rate_triple (hevc_rate_control w2) = Some (b2, m2, s2) \<and>
         (w1 \<le> w2 \<longrightarrow> b1 \<le> b2 \<and> m1 \<le> m2 \<and> s1 \<le> s2))
   \<and> rkmpp_cmd base_cmd filter_expr ''hevc_rkmpp'' profile dest =
       base_cmd @ [''-vf'', filter_expr, ''-c:v'', ''hevc_rkmpp'', ''-pix_fmt'', ''nv12'',
                   ''-profile:v'', ''main'', ''-tag:v'', ''hvc1'',
                   ''-b:v'', fst (hevc_rate_control (pwidth profile)),
                   ''-maxrate'', fst (snd (hevc_rate_control (pwidth profile))),
                   ''-bufsize'', snd (snd (hevc_rate_control (pwidth profile))),
                   ''-g'', ''240'', ''-movflags'', ''+faststart'', ''-c:a'', ''aac'',
                   ''-b:a'', ''128k'', dest]
   \<and> transcode_rkmpp eng h r src dst profile dec ''hevc_rkmpp'' =
      (let tiered_cmd = (\<lambda>filter_expr.
             [ffmpeg_command eng, ''-hide_banner'', ''-loglevel'', ''error'', ''-y'']
             @ (if dec \<noteq> [] then [''-hwaccel'', ''rkmpp'', ''-c:v'', dec] else [])
             @ [''-i'', src]
             @ [''-vf'', filter_expr, ''-c:v'', ''hevc_rkmpp'', ''-pix_fmt'', ''nv12'',
                ''-profile:v'', ''main'', ''-tag:v'', ''hvc1'',
                ''-b:v'', fst (hevc_rate_control (pwidth profile)),
                ''-maxrate'', fst (snd (hevc_rate_control (pwidth profile))),
                ''-bufsize'', snd (snd (hevc_rate_control (pwidth profile))),
                ''-g'', ''240'', ''-movflags'', ''+faststart'', ''-c:a'', ''aac'',
                ''-b:a'', ''128k'', dst]);
           format_run = (\<lambda>r0. run_ffmpeg h
             (tiered_cmd ''format=nv12,pad=ceil(iw/16)*16:ceil(ih/16)*16'')
             ''transcode-rkmpp-format'' (Some (progress_closure (duration_or_zero r0))) r0)
       in if rga_exists h then
            (case run_ffmpeg h (tiered_cmd ''rkrga=fmt=nv12,pad=ceil(iw/16)*16:ceil(ih/16)*16'')
                    ''transcode-rkmpp-rkrga'' (Some (progress_closure (duration_or_zero r))) r of
               (Inr u, r') \<Rightarrow> (Inr (), r')
             | (Inl e, r') \<Rightarrow> if is_RuntimeError e then format_run r' else (Inl e, r'))
          else format_run r)
   \<and> (''hevc_rkmpp'' \<in> ffmpeg_encoders eng \<and> \<not> should_remux info profile h265 \<longrightarrow>
        remux_or_transcode eng h info profile h265 src dst r =
          (False, transcode_rkmpp eng h r src dst profile
                    (fst (snd (select_rkmpp_codecs eng info h265))) ''hevc_rkmpp''))"
proof (intro conjI)
  show "hevc_rate_control w =
     (if 3800 \<le> w then (''8M'', ''12M'', ''18M'')
      else if 2500 \<le> w then (''5M'', ''8M'', ''12M'')
      else (''3M'', ''5M'', ''8M''))"
    by (simp add: hevc_rate_control_def)
next
  show "\<exists>b1 m1 s1 b2 m2 s2.
         rate_triple (hevc_rate_control w1) = Some (b1, m1, s1) \<and>
         rate_triple (hevc_rate_control w2) = Some (b2, m2, s2) \<and>
         (w1 \<le> w2 \<longrightarrow> b1 \<le> b2 \<and> m1 \<le> m2 \<and> s1 \<le> s2)"
    unfolding rate_triple_hevc by auto
next
  show "rkmpp_cmd base_cmd filter_expr ''hevc_rkmpp'' profile dest =
       base_cmd @ [''-vf'', filter_expr, ''-c:v'', ''hevc_rkmpp'', ''-pix_fmt'', ''nv12'',
                   ''-profile:v'', ''main'', ''-tag:v'', ''hvc1'',
                   ''-b:v'', fst (hevc_rate_control (pwidth profile)),
                   ''-maxrate'', fst (snd (hevc_rate_control (pwidth profile))),
                   ''-bufsize'', snd (snd (hevc_rate_control (pwidth profile))),
                   ''-g'', ''240'', ''-movflags'', ''+faststart'', ''-c:a'', ''aac'',
                   ''-b:a'', ''128k'', dest]"
    by (rule rkmpp_cmd_hevc)
next
  show "transcode_rkmpp eng h r src dst profile dec ''hevc_rkmpp'' =
      (let tiered_cmd = (\<lambda>filter_expr.
             [ffmpeg_command eng, ''-hide_banner'', ''-loglevel'', ''error'', ''-y'']
             @ (if dec \<noteq> [] then [''-hwaccel'', ''rkmpp'', ''-c:v'', dec] else [])
             @ [''-i'', src]
             @ [''-vf'', filter_expr, ''-c:v'', ''hevc_rkmpp'', ''-pix_fmt'', ''nv12'',
                ''-profile:v'', ''main'', ''-tag:v'', ''hvc1'',
                ''-b:v'', fst (hevc_rate_control (pwidth profile)),
                ''-maxrate'', fst (snd (hevc_rate_control (pwidth profile))),
                ''-bufsize'', snd (snd (hevc_rate_control (pwidth profile))),
                ''-g'', ''240'', ''-movflags'', ''+faststart'', ''-c:a'', ''aac'',
                ''-b:a'', ''128k'', dst]);
           format_run = (\<lambda>r0. run_ffmpeg h
             (tiered_cmd ''format=nv12,pad=ceil(iw/16)*16:ceil(ih/16)*16'')
             ''transcode-rkmpp-format'' (Some (progress_closure (duration_or_zero r0))) r0)
       in if rga_exists h then
            (case run_ffmpeg h (tiered_cmd ''rkrga=fmt=nv12,pad=ceil(iw/16)*16:ceil(ih/16)*16'')
                    ''transcode-rkmpp-rkrga'' (Some (progress_closure (duration_or_zero r))) r of
               (Inr u, r') \<Rightarrow> (Inr (), r')
             | (Inl e, r') \<Rightarrow> if is_RuntimeError e then format_run r' else (Inl e, r'))
          else format_run r)"
    by (rule transcode_rkmpp_hevc)
next
  show "''hevc_rkmpp'' \<in> ffmpeg_encoders eng \<and> \<not> should_remux info profile h265 \<longrightarrow>
        remux_or_transcode eng h info profile h265 src dst r =
          (False, transcode_rkmpp eng h r src dst profile
                    (fst (snd (select_rkmpp_codecs eng info h265))) ''hevc_rkmpp'')"
    using remux_or_transcode_hevc by blast
qed

lemma example_run_ffmpeg:
  "run_ffmpeg example_host (c # cs) action (Some (progress_closure 10)) example_record =
    (Inr (), example_record\<lparr>transcode_media_seconds := Some 12, updated_at := 2000000\<rparr>)"
  by (simp add: run_ffmpeg_def example_host_def example_progress_line)

lemma example_duration_or_zero: "duration_or_zero example_record = 10"
  by (simp add: duration_or_zero_def example_record_def)

theorem hevc_rate_control_tiers_witness:
  "rate_triple (hevc_rate_control 1920) = Some (3000000, 5000000, 8000000)
   \<and> rate_triple (hevc_rate_control 3840) = Some (8000000, 12000000, 18000000)
   \<and> remux_or_transcode (example_engine\<lparr>ffmpeg_encoders := {''hevc_rkmpp''}\<rparr>) example_host
        example_info uhd_profile h265 ''/data/input/j1_a.mp4'' ''/data/work/j1.mp4''
        example_record
      = (False, Inr (),
         example_record\<lparr>transcode_media_seconds := Some 12, updated_at := 2000000\<rparr>)"
proof -
  let ?eng = "example_engine\<lparr>ffmpeg_encoders := {''hevc_rkmpp''}\<rparr>"
  note t = hevc_rate_control_tiers [where ?w1.0 = 1920 and ?w2.0 = 3840 and eng = ?eng
      and h = example_host and r = example_record and info = example_info
      and profile = uhd_profile and src = "''/data/input/j1_a.mp4''"
      and dst = "''/data/work/j1.mp4''"
      and dec = "fst (snd (select_rkmpp_codecs ?eng example_info h265))"]
  have enc: "''hevc_rkmpp'' \<in> ffmpeg_encoders ?eng" by simp
  have nr: "\<not> should_remux example_info uhd_profile h265" by (rule example_not_remux)
  have rga: "\<not> rga_exists example_host" by (simp add: example_host_def)
  from t enc nr have sel:
    "remux_or_transcode ?eng example_host example_info uhd_profile h265
        ''/data/input/j1_a.mp4'' ''/data/work/j1.mp4'' example_record
      = (False, transcode_rkmpp ?eng example_host example_record ''/data/input/j1_a.mp4''
           ''/data/work/j1.mp4'' uhd_profile
           (fst (snd (select_rkmpp_codecs ?eng example_info h265))) ''hevc_rkmpp'')"
    by blast
  from t have run:
    "transcode_rkmpp ?eng example_host example_record ''/data/input/j1_a.mp4''
           ''/data/work/j1.mp4'' uhd_profile
           (fst (snd (select_rkmpp_codecs ?eng example_info h265))) ''hevc_rkmpp''
     = (Inr (), example_record\<lparr>transcode_media_seconds := Some 12, updated_at := 2000000\<rparr>)"
    by (simp add: rga example_duration_or_zero example_run_ffmpeg Let_def)
  have "rate_triple (hevc_rate_control 1920) = Some (3000000, 5000000, 8000000)
   \<and> rate_triple (hevc_rate_control 3840) = Some (8000000, 12000000, 18000000)"
    by (simp add: rate_triple_hevc)
  with sel run show ?thesis by simp
qed

end
